theory Spec2Isabelle
  imports Main "HOL-Library.Char_ord" "HOL-Library.List_Lexorder"
begin

section \<open>Python string primitives used by nanopub_utils.py\<close>

text \<open>
  Strings are \<^typ>\<open>string\<close>. Every string operation of the source tests or replaces
  single ASCII characters, so it acts alike on code points and on the bytes of UTF-8.
  The four characters that cannot be written inside an Isabelle string literal are named
  here.
\<close>

definition bslash :: char where "bslash = CHR 0x5C"
definition dquote :: char where "dquote = CHR 0x22"
definition newline :: char where "newline = CHR 0x0A"
definition creturn :: char where "creturn = CHR 0x0D"

text \<open>\<^verbatim>\<open>text.replace(old, new)\<close> for a one-character \<open>old\<close>: every occurrence, left to right.\<close>

fun replace :: "char \<Rightarrow> string \<Rightarrow> string \<Rightarrow> string" where
  "replace old new [] = []"
| "replace old new (c # cs) =
     (if c = old then new @ replace old new cs else c # replace old new cs)"

definition startswith :: "string \<Rightarrow> string \<Rightarrow> bool" where
  "startswith s p = (take (length p) s = p)"

definition endswith :: "string \<Rightarrow> string \<Rightarrow> bool" where
  "endswith s p = (take (length p) (rev s) = rev p)"

text \<open>\<^verbatim>\<open>s.rstrip(chars)\<close>: drops every trailing character that occurs in \<open>chars\<close>.\<close>

definition rstrip :: "string \<Rightarrow> string \<Rightarrow> string" where
  "rstrip s chars = rev (dropWhile (\<lambda>c. c \<in> set chars) (rev s))"

text \<open>\<^verbatim>\<open>sep.join(xs)\<close>.\<close>

fun join :: "string \<Rightarrow> string list \<Rightarrow> string" where
  "join sep [] = []"
| "join sep [x] = x"
| "join sep (x # y # ys) = x @ sep @ join sep (y # ys)"

text \<open>
  Truth value of an optional string, list or dict argument (\<^verbatim>\<open>if datatype:\<close>,
  \<^verbatim>\<open>if nanopub_types:\<close>, \<^verbatim>\<open>if wikidata_labels:\<close>): \<open>None\<close> and the empty
  string, list or dict are all false. A dict is an association list in insertion order.
\<close>

fun truthy :: "'a list option \<Rightarrow> bool" where
  "truthy None = False"
| "truthy (Some s) = (s \<noteq> [])"

type_synonym dict = "(string \<times> string) list"

text \<open>\<^verbatim>\<open>d[k] = v\<close>: an existing key keeps its position, a new key goes last.\<close>

fun dict_set :: "dict \<Rightarrow> string \<Rightarrow> string \<Rightarrow> dict" where
  "dict_set [] k v = [(k, v)]"
| "dict_set ((k', v') # d) k v = (if k' = k then (k, v) # d else (k', v') # dict_set d k v)"

datatype error =
    ValueError string
  | KeyError string
  | NotImplementedError
  | ExtensionError string

section \<open>Escaping and formatting primitives\<close>

text \<open>
  \<^verbatim>\<open>text.replace('\\', '\\\\').replace('"', '\\"').replace('\n', '\\n').replace('\r', '\\r')\<close>
\<close>

definition escape_literal :: "string \<Rightarrow> string" where
  "escape_literal text =
     replace creturn [bslash, CHR ''r'']
       (replace newline [bslash, CHR ''n'']
         (replace dquote [bslash, dquote]
           (replace bslash [bslash, bslash] text)))"

text \<open>
  An optional argument (\<^verbatim>\<open>prefix: str = None\<close>) is a \<^typ>\<open>string option\<close>; \<^verbatim>\<open>elif prefix:\<close>
  is \<open>truthy\<close>. In make_literal the value is a string, so \<^verbatim>\<open>str(value)\<close> is the value.
\<close>

definition make_uri :: "string \<Rightarrow> string option \<Rightarrow> string" where
  "make_uri v prefix =
     (if startswith v ''http://'' \<or> startswith v ''https://'' then ''<'' @ v @ ''>''
      else if truthy prefix then the prefix @ '':'' @ v
      else ''<'' @ v @ ''>'')"

definition make_literal :: "string \<Rightarrow> string option \<Rightarrow> string option \<Rightarrow> string" where
  "make_literal v datatype lang =
     (let escaped = escape_literal v in
      if truthy datatype then [dquote] @ escaped @ [dquote] @ ''^^'' @ the datatype
      else if truthy lang then [dquote] @ escaped @ [dquote] @ ''@'' @ the lang
      else [dquote] @ escaped @ [dquote])"

section \<open>Graph builders\<close>

text \<open>One \<^verbatim>\<open>nt:hasLabelFromApi\<close> line, as both label loops of the source format it.\<close>

definition label_triple :: "string \<Rightarrow> string \<Rightarrow> string" where
  "label_triple uri lbl =
     ''  <'' @ uri @ ''> nt:hasLabelFromApi '' @ make_literal lbl None None @ '' .''"

definition creator_triple :: "string \<Rightarrow> string \<Rightarrow> string" where
  "creator_triple creator_orcid creator_name =
     ''  orcid:'' @ creator_orcid @ '' foaf:name '' @ make_literal creator_name None None @ '' .''"

text \<open>
  Lines 111 to 126 of the source: the graph header, the Wikidata labels, the label of
  the is_part_of reference, the creator name. \<^verbatim>\<open>is_part_of['uri']\<close> raises KeyError
  when the dict has a label and no uri.
\<close>

definition pubinfo_labels ::
  "string \<Rightarrow> string \<Rightarrow> string \<Rightarrow> dict option \<Rightarrow> dict option \<Rightarrow> error + string list" where
  "pubinfo_labels sub_prefix creator_orcid creator_name wikidata_labels is_part_of =
     (let lines = [sub_prefix @ '':pubinfo {''];
          lines = (if truthy wikidata_labels
                   then lines @ map (\<lambda>(wd_uri, wd_label). label_triple wd_uri wd_label)
                                    (the wikidata_labels) @ [[]]
                   else lines)
      in if truthy is_part_of \<and> truthy (map_of (the is_part_of) ''label'')
         then (case map_of (the is_part_of) ''uri'' of
                 None \<Rightarrow> Inl (KeyError ''uri'')
               | Some uri \<Rightarrow>
                   Inr (lines @ [label_triple uri (the (map_of (the is_part_of) ''label'')), []]
                        @ [creator_triple creator_orcid creator_name, []]))
         else Inr (lines @ [creator_triple creator_orcid creator_name, []]))"

text \<open>
  The predicates that can come last in the \<^verbatim>\<open>this:\<close> block, without their terminator.
\<close>

definition label_predicate :: "string \<Rightarrow> string" where
  "label_predicate label = ''    rdfs:label '' @ make_literal label None None"

definition provenance_template_predicate :: "string \<Rightarrow> string" where
  "provenance_template_predicate uri =
     ''    nt:wasCreatedFromProvenanceTemplate <'' @ uri @ ''>''"

definition pubinfo_templates_predicate :: "string list \<Rightarrow> string" where
  "pubinfo_templates_predicate uris =
     ''    nt:wasCreatedFromPubinfoTemplate ''
       @ join ('','' @ [newline] @ ''      '') (map (\<lambda>t. ''<'' @ t @ ''>'') uris)"

definition template_predicate :: "string \<Rightarrow> string" where
  "template_predicate uri = ''    nt:wasCreatedFromTemplate <'' @ uri @ ''>''"

text \<open>Lines 129 to 159: the predicates of the \<^verbatim>\<open>this:\<close> subject, each ending in a semicolon.\<close>

definition pubinfo_metadata ::
  "string \<Rightarrow> string \<Rightarrow> string \<Rightarrow> string option \<Rightarrow> string list option \<Rightarrow> string list option
     \<Rightarrow> string option \<Rightarrow> string option \<Rightarrow> dict option \<Rightarrow> string list" where
  "pubinfo_metadata timestamp creator_orcid label provenance_template_uri pubinfo_template_uris
       nanopub_types introduces_uri supersedes is_part_of =
     [''  this: dct:created '' @ [dquote] @ timestamp @ [dquote] @ ''^^xsd:dateTime ;'',
      ''    dct:creator orcid:'' @ creator_orcid @ '' ;'',
      ''    dct:license <https://creativecommons.org/licenses/by/4.0/> ;'']
     @ (if truthy nanopub_types
        then [''    npx:hasNanopubType ''
                @ join '', '' (map (\<lambda>t. ''<'' @ t @ ''>'') (the nanopub_types)) @ '' ;'']
        else [])
     @ (if truthy introduces_uri
        then [''    npx:introduces <'' @ the introduces_uri @ ''> ;''] else [])
     @ (if truthy supersedes
        then [''    npx:supersedes <'' @ the supersedes @ ''> ;''] else [])
     @ (if truthy is_part_of \<and> truthy (map_of (the is_part_of) ''uri'')
        then [''    <http://purl.org/dc/terms/isPartOf> <''
                @ the (map_of (the is_part_of) ''uri'') @ ''> ;'']
        else [])
     @ [''    npx:wasCreatedAt <https://nanodash.knowledgepixels.com/> ;'',
        label_predicate label @ '' ;'']
     @ (if truthy provenance_template_uri
        then [provenance_template_predicate (the provenance_template_uri) @ '' ;''] else [])
     @ (if truthy pubinfo_template_uris
        then [pubinfo_templates_predicate (the pubinfo_template_uris) @ '' ;''] else [])"

text \<open>
  Lines 161 to 169: the terminator of the last line is rewritten. \<^verbatim>\<open>lines[-1] = x\<close>
  replaces the last element; \<open>lines\<close> is never empty here.
\<close>

definition terminate_block :: "string option \<Rightarrow> string list \<Rightarrow> string list" where
  "terminate_block template_uri lines =
     (if truthy template_uri
      then (let l1 = rstrip (last lines) '' ;'';
                l2 = (if \<not> endswith l1 '' .'' then l1 @ '' ;'' else l1)
            in butlast lines @ [l2] @ [template_predicate (the template_uri) @ '' .''])
      else butlast lines @ [rstrip (last lines) '' ;'' @ '' .''])"

text \<open>
  The list \<open>lines\<close> of generate_pubinfo_graph when it returns. The current time read by
  get_timestamp is the parameter \<open>timestamp\<close>.
\<close>

definition pubinfo_lines ::
  "string \<Rightarrow> string \<Rightarrow> string \<Rightarrow> string \<Rightarrow> string \<Rightarrow> string \<Rightarrow> string option \<Rightarrow> string option
     \<Rightarrow> string list option \<Rightarrow> string list option \<Rightarrow> string option \<Rightarrow> dict option
     \<Rightarrow> string option \<Rightarrow> dict option \<Rightarrow> error + string list" where
  "pubinfo_lines timestamp nanopub_uri sub_prefix creator_orcid creator_name label template_uri
       provenance_template_uri pubinfo_template_uris nanopub_types introduces_uri
       wikidata_labels supersedes is_part_of =
     (case pubinfo_labels sub_prefix creator_orcid creator_name wikidata_labels is_part_of of
        Inl e \<Rightarrow> Inl e
      | Inr lines \<Rightarrow>
          Inr (terminate_block template_uri
                 (lines @ pubinfo_metadata timestamp creator_orcid label provenance_template_uri
                            pubinfo_template_uris nanopub_types introduces_uri supersedes
                            is_part_of)
               @ [''}'']))"

definition generate_pubinfo_graph ::
  "string \<Rightarrow> string \<Rightarrow> string \<Rightarrow> string \<Rightarrow> string \<Rightarrow> string \<Rightarrow> string option \<Rightarrow> string option
     \<Rightarrow> string list option \<Rightarrow> string list option \<Rightarrow> string option \<Rightarrow> dict option
     \<Rightarrow> string option \<Rightarrow> dict option \<Rightarrow> error + string" where
  "generate_pubinfo_graph timestamp nanopub_uri sub_prefix creator_orcid creator_name label
       template_uri provenance_template_uri pubinfo_template_uris nanopub_types introduces_uri
       wikidata_labels supersedes is_part_of =
     (case pubinfo_lines timestamp nanopub_uri sub_prefix creator_orcid creator_name label
             template_uri provenance_template_uri pubinfo_template_uris nanopub_types
             introduces_uri wikidata_labels supersedes is_part_of of
        Inl e \<Rightarrow> Inl e
      | Inr lines \<Rightarrow> Inr (join [newline] lines))"

definition generate_provenance_graph :: "string \<Rightarrow> string \<Rightarrow> string" where
  "generate_provenance_graph sub_prefix creator_orcid =
     sub_prefix @ '':provenance {'' @ [newline]
     @ ''  '' @ sub_prefix @ '':assertion prov:wasAttributedTo orcid:'' @ creator_orcid @ '' .''
     @ [newline] @ ''}''"

definition generate_head_graph :: "string \<Rightarrow> string" where
  "generate_head_graph sub_prefix =
     sub_prefix @ '':Head {'' @ [newline]
     @ ''  this: a np:Nanopublication ;'' @ [newline]
     @ ''    np:hasAssertion '' @ sub_prefix @ '':assertion ;'' @ [newline]
     @ ''    np:hasProvenance '' @ sub_prefix @ '':provenance ;'' @ [newline]
     @ ''    np:hasPublicationInfo '' @ sub_prefix @ '':pubinfo .'' @ [newline]
     @ ''}''"

section \<open>Identifier generator\<close>

text \<open>
  \<^verbatim>\<open>hashlib.sha256(str(uuid.uuid4()).encode()).hexdigest()[:43]\<close>. Neither the random
  source nor SHA-256 is code of this repository: the UUID drawn by the call and the digest
  function are parameters.
\<close>

definition generate_nanopub_uri :: "(string \<Rightarrow> string) \<Rightarrow> string \<Rightarrow> string" where
  "generate_nanopub_uri sha256_hexdigest uuid4 =
     ''https://w3id.org/np/RA'' @ take 43 (sha256_hexdigest uuid4)"

section \<open>Validation of required fields\<close>

text \<open>
  A configuration is what \<^verbatim>\<open>json.load\<close> returns: a dict from field names to JSON values.
  \<open>truth_value\<close> is Python's truth test on such a value (\<^verbatim>\<open>not config[f]\<close>).
\<close>

datatype json =
    JNull
  | JBool bool
  | JNum int
  | JStr string
  | JArr "json list"
  | JObj "(string \<times> json) list"

fun truth_value :: "json \<Rightarrow> bool" where
  "truth_value JNull = False"
| "truth_value (JBool b) = b"
| "truth_value (JNum n) = (n \<noteq> 0)"
| "truth_value (JStr s) = (s \<noteq> [])"
| "truth_value (JArr xs) = (xs \<noteq> [])"
| "truth_value (JObj kvs) = (kvs \<noteq> [])"

definition missing_fields :: "(string \<times> json) list \<Rightarrow> string list \<Rightarrow> string list" where
  "missing_fields config required =
     filter (\<lambda>f. map_of config f = None \<or> \<not> truth_value (the (map_of config f))) required"

definition validate_required_fields :: "(string \<times> json) list \<Rightarrow> string list \<Rightarrow> error + unit" where
  "validate_required_fields config required =
     (let missing = missing_fields config required
      in if missing \<noteq> []
         then Inl (ValueError (''Missing required fields: '' @ join '', '' missing))
         else Inr ())"

section \<open>The generator class\<close>

definition PREFIXES :: "(string \<times> string) list" where
  "PREFIXES =
     [(''np'', ''http://www.nanopub.org/nschema#''),
      (''dct'', ''http://purl.org/dc/terms/''),
      (''rdf'', ''http://www.w3.org/1999/02/22-rdf-syntax-ns#''),
      (''rdfs'', ''http://www.w3.org/2000/01/rdf-schema#''),
      (''xsd'', ''http://www.w3.org/2001/XMLSchema#''),
      (''prov'', ''http://www.w3.org/ns/prov#''),
      (''foaf'', ''http://xmlns.com/foaf/0.1/''),
      (''orcid'', ''https://orcid.org/''),
      (''npx'', ''http://purl.org/nanopub/x/''),
      (''nt'', ''https://w3id.org/np/o/ntemplate/''),
      (''cito'', ''http://purl.org/spar/cito/''),
      (''fabio'', ''http://purl.org/spar/fabio/''),
      (''schema'', ''https://schema.org/''),
      (''skos'', ''http://www.w3.org/2004/02/skos/core#''),
      (''hycl'', ''http://purl.org/petapico/o/hycl#''),
      (''aida'', ''http://purl.org/aida/''),
      (''wd'', ''http://www.wikidata.org/entity/''),
      (''wdt'', ''http://www.wikidata.org/prop/direct/''),
      (''dcmitype'', ''http://purl.org/dc/dcmitype/''),
      (''fdof'', ''https://w3id.org/fdof/ontology#''),
      (''fair'', ''https://w3id.org/fair/fip/terms/''),
      (''dcat'', ''https://www.w3.org/ns/dcat#''),
      (''geo'', ''http://www.opengis.net/ont/geosparql#''),
      (''pico'', ''http://data.cochrane.org/ontologies/pico/'')]"

definition PROVENANCE_TEMPLATE :: string where
  "PROVENANCE_TEMPLATE = ''https://w3id.org/np/RA7lSq6MuK_TIC6JMSHvLtee3lpLoZDOqLJCLXevnrPoU''"

definition PUBINFO_TEMPLATES :: "string list" where
  "PUBINFO_TEMPLATES =
     [''https://w3id.org/np/RA0J4vUn_dekg-U1kK3AOEt02p9mT2WO03uGxLDec1jLw'',
      ''https://w3id.org/np/RAukAcWHRDlkqxk7H2XNSegc1WnHI569INvNr-xdptDGI'']"

text \<open>
  A key of the configuration dict: absent, present with the value null (Python's None),
  or present with a value. \<^verbatim>\<open>config.get(k, d)\<close> returns \<open>d\<close> for an absent key only; for a
  key present with null it returns None, which is \<open>None\<close> here.
\<close>

datatype 'a entry = Absent | Null | Value 'a

fun get :: "'a entry \<Rightarrow> 'a option \<Rightarrow> 'a option" where
  "get Absent d = d"
| "get Null d = None"
| "get (Value v) d = Some v"

text \<open>
  \<^verbatim>\<open>str(x)\<close> and the formatting of \<open>x\<close> in an f-string, for a string or None. The graph
  builders use creator_orcid, creator_name and label in no other way, so \<open>generate\<close> can
  pass them the formatted text.
\<close>

fun str :: "string option \<Rightarrow> string" where
  "str None = ''None''"
| "str (Some s) = s"

text \<open>
  The keys of the configuration that \<open>generate\<close> reads, with the types that the signature of
  generate_pubinfo_graph gives their values. The value of is_part_of is a dict object: the
  configuration holds a reference to it, and the object itself is in the store of the
  generator, so that a change made to it in place is seen through every reference.
\<close>

type_synonym ref = nat

record config =
  cfg_creator_orcid :: "string entry"
  cfg_creator_name :: "string entry"
  cfg_template_uri :: "string entry"
  cfg_supersedes :: "string entry"
  cfg_is_part_of :: "ref entry"
  cfg_label :: "string entry"

text \<open>
  The attributes of a generator object. \<^verbatim>\<open>self.PROVENANCE_TEMPLATE\<close> and
  \<^verbatim>\<open>self.PUBINFO_TEMPLATES\<close> are looked up on the object: they are the defaults of the class
  unless a subclass or an assignment has replaced them. \<open>self_store\<close> holds the dict objects
  that references point to.
\<close>

record generator =
  self_config :: config
  self_nanopub_uri :: string
  self_sub_prefix :: string
  self_used_prefixes :: "string set"
  self_wikidata_labels :: dict
  self_introduces_uri :: "string option"
  self_nanopub_types :: "string list"
  self_PROVENANCE_TEMPLATE :: "string option"
  self_PUBINFO_TEMPLATES :: "string list option"
  self_store :: "ref \<Rightarrow> dict"

text \<open>
  \<^verbatim>\<open>__init__\<close> of the base class; the fresh URI from generate_nanopub_uri is the second
  argument, the dict objects that exist at the call the third.
\<close>

definition init :: "config \<Rightarrow> string \<Rightarrow> (ref \<Rightarrow> dict) \<Rightarrow> generator" where
  "init cfg uri store =
     \<lparr>self_config = cfg,
      self_nanopub_uri = uri,
      self_sub_prefix = ''sub'',
      self_used_prefixes =
        {''np'', ''dct'', ''rdf'', ''rdfs'', ''xsd'', ''prov'', ''foaf'', ''orcid'', ''npx'', ''nt''},
      self_wikidata_labels = [],
      self_introduces_uri = None,
      self_nanopub_types = [],
      self_PROVENANCE_TEMPLATE = Some PROVENANCE_TEMPLATE,
      self_PUBINFO_TEMPLATES = Some PUBINFO_TEMPLATES,
      self_store = store\<rparr>"

definition add_prefix :: "generator \<Rightarrow> string \<Rightarrow> generator" where
  "add_prefix self prefix = self\<lparr>self_used_prefixes := insert prefix (self_used_prefixes self)\<rparr>"

definition add_wikidata_label :: "generator \<Rightarrow> string \<Rightarrow> string \<Rightarrow> generator" where
  "add_wikidata_label self uri label =
     (if startswith uri ''http://www.wikidata.org/entity/''
      then self\<lparr>self_wikidata_labels := dict_set (self_wikidata_labels self) uri label\<rparr>
      else self)"

definition set_introduces :: "generator \<Rightarrow> string \<Rightarrow> generator" where
  "set_introduces self uri = self\<lparr>self_introduces_uri := Some uri\<rparr>"

definition add_nanopub_type :: "generator \<Rightarrow> string \<Rightarrow> generator" where
  "add_nanopub_type self type_uri =
     (if type_uri \<notin> set (self_nanopub_types self)
      then self\<lparr>self_nanopub_types := self_nanopub_types self @ [type_uri]\<rparr>
      else self)"

definition get_prefixes_block :: "generator \<Rightarrow> string" where
  "get_prefixes_block self =
     join [newline]
       ([''@prefix this: <'' @ self_nanopub_uri self @ ''> .'',
         ''@prefix '' @ self_sub_prefix self @ '': <'' @ self_nanopub_uri self @ ''/> .'']
        @ map (\<lambda>prefix. ''@prefix '' @ prefix @ '': <'' @ the (map_of PREFIXES prefix) @ ''> .'')
            (filter (\<lambda>prefix. map_of PREFIXES prefix \<noteq> None)
               (sorted_list_of_set (self_used_prefixes self))))"

text \<open>The method of the base class; a subclass overrides it.\<close>

definition generate_assertion :: "generator \<Rightarrow> error + string \<times> generator" where
  "generate_assertion self = Inl NotImplementedError"

text \<open>
  \<open>generate\<close>, with the overriding method of the subclass as the first argument: it
  returns the assertion graph and the generator as it has left it, or raises. The
  configuration is read before that call; the label, the template attributes and the other
  attributes of the generator are read after it. \<open>is_part_of\<close> is read before the call as a
  reference, and the dict it points to is read by generate_pubinfo_graph after the call.
\<close>

definition generate ::
  "(generator \<Rightarrow> error + string \<times> generator) \<Rightarrow> string \<Rightarrow> generator \<Rightarrow> error + string" where
  "generate assertion_method timestamp self =
     (let creator_orcid = str (get (cfg_creator_orcid (self_config self))
                                 (Some ''0000-0000-0000-0000''));
          creator_name = str (get (cfg_creator_name (self_config self)) (Some ''Unknown''));
          template_uri = get (cfg_template_uri (self_config self)) None;
          supersedes = get (cfg_supersedes (self_config self)) None;
          is_part_of = get (cfg_is_part_of (self_config self)) None
      in case assertion_method self of
           Inl e \<Rightarrow> Inl e
         | Inr (assertion, self') \<Rightarrow>
             (let label = str (get (cfg_label (self_config self')) (Some ''Nanopublication''));
                  prefixes = get_prefixes_block self';
                  head = generate_head_graph (self_sub_prefix self');
                  provenance = generate_provenance_graph (self_sub_prefix self') creator_orcid
              in case generate_pubinfo_graph timestamp (self_nanopub_uri self')
                        (self_sub_prefix self') creator_orcid creator_name label template_uri
                        (self_PROVENANCE_TEMPLATE self') (self_PUBINFO_TEMPLATES self')
                        (if self_nanopub_types self' \<noteq> [] then Some (self_nanopub_types self')
                         else None)
                        (self_introduces_uri self')
                        (if self_wikidata_labels self' \<noteq> [] then Some (self_wikidata_labels self')
                         else None)
                        supersedes (map_option (self_store self') is_part_of) of
                   Inl e \<Rightarrow> Inl e
                 | Inr pubinfo \<Rightarrow>
                     Inr (prefixes @ [newline, newline] @ head @ [newline, newline] @ assertion
                          @ [newline, newline] @ provenance @ [newline, newline] @ pubinfo
                          @ [newline])))"

section \<open>Properties the specification states\<close>

text \<open>
  The escaped form of one character, as the specification gives it: backslash, double
  quote, newline and carriage return become a backslash and one more character.
\<close>

definition escaped_form :: "char \<Rightarrow> string" where
  "escaped_form c =
     (if c = bslash then [bslash, bslash]
      else if c = dquote then [bslash, dquote]
      else if c = newline then [bslash, CHR ''n'']
      else if c = creturn then [bslash, CHR ''r'']
      else [c])"

text \<open>
  A text with no raw newline or carriage return, in which every double quote and every
  backslash is part of one of the four escape sequences (read left to right).
\<close>

fun well_escaped :: "string \<Rightarrow> bool" where
  "well_escaped [] = True"
| "well_escaped [c] = (c \<noteq> bslash \<and> c \<noteq> dquote \<and> c \<noteq> newline \<and> c \<noteq> creturn)"
| "well_escaped (c # d # cs) =
     (if c = bslash then d \<in> {bslash, dquote, CHR ''n'', CHR ''r''} \<and> well_escaped cs
      else c \<noteq> dquote \<and> c \<noteq> newline \<and> c \<noteq> creturn \<and> well_escaped (d # cs))"

text \<open>
  What follows the first double quote that is not escaped, reading the body of a literal
  from the character after its opening quote.
\<close>

fun closing_quote :: "string \<Rightarrow> string option" where
  "closing_quote [] = None"
| "closing_quote [c] = (if c = dquote then Some [] else None)"
| "closing_quote (c # d # cs) =
     (if c = dquote then Some (d # cs)
      else if c = bslash then closing_quote cs
      else closing_quote (d # cs))"

text \<open>What make_literal appends after the closing quote.\<close>

definition literal_suffix :: "string option \<Rightarrow> string option \<Rightarrow> string" where
  "literal_suffix datatype lang =
     (if truthy datatype then ''^^'' @ the datatype
      else if truthy lang then ''@'' @ the lang
      else [])"

text \<open>
  An empty value in the words of the specification: null, the empty string, the empty list,
  the empty record. A number and a boolean are not empty.
\<close>

fun empty_value :: "json \<Rightarrow> bool" where
  "empty_value JNull = True"
| "empty_value (JBool b) = False"
| "empty_value (JNum n) = False"
| "empty_value (JStr s) = (s = [])"
| "empty_value (JArr xs) = (xs = [])"
| "empty_value (JObj kvs) = (kvs = [])"

text \<open>
  The kinds of value that the data model of the specification gives a configuration
  (strings, nested records, sequences), and null. A boolean and a number are none of these.
\<close>

fun data_model_value :: "json \<Rightarrow> bool" where
  "data_model_value JNull = True"
| "data_model_value (JBool b) = False"
| "data_model_value (JNum n) = False"
| "data_model_value (JStr s) = True"
| "data_model_value (JArr xs) = True"
| "data_model_value (JObj kvs) = True"

definition configuration_record :: "(string \<times> json) list \<Rightarrow> bool" where
  "configuration_record config = list_all (\<lambda>kv. data_model_value (snd kv)) config"

definition absent_or_empty :: "(string \<times> json) list \<Rightarrow> string \<Rightarrow> bool" where
  "absent_or_empty config f = (map_of config f = None \<or> empty_value (the (map_of config f)))"

text \<open>What the code tests: the field is absent or its value is false in Python's sense.\<close>

definition absent_or_false :: "(string \<times> json) list \<Rightarrow> string \<Rightarrow> bool" where
  "absent_or_false config f = (map_of config f = None \<or> \<not> truth_value (the (map_of config f)))"

definition raises :: "error + 'a \<Rightarrow> bool" where
  "raises r = (case r of Inl e \<Rightarrow> True | Inr v \<Rightarrow> False)"

definition message :: "error + 'a \<Rightarrow> string" where
  "message r = (case r of Inl (ValueError m) \<Rightarrow> m | Inl (KeyError m) \<Rightarrow> m
                | Inl (ExtensionError m) \<Rightarrow> m | _ \<Rightarrow> [])"

text \<open>A run of add_wikidata_label calls, first call first.\<close>

definition add_wikidata_labels :: "generator \<Rightarrow> (string \<times> string) list \<Rightarrow> generator" where
  "add_wikidata_labels self calls =
     foldl (\<lambda>g (uri, label). add_wikidata_label g uri label) self calls"

text \<open>
  The predicate that the code leaves last before the optional custom-template line: the
  last one appended among label, provenance template and pubinfo templates.
\<close>

definition last_predicate :: "string \<Rightarrow> string option \<Rightarrow> string list option \<Rightarrow> string" where
  "last_predicate label provenance_template_uri pubinfo_template_uris =
     (if truthy pubinfo_template_uris
      then pubinfo_templates_predicate (the pubinfo_template_uris)
      else if truthy provenance_template_uri
      then provenance_template_predicate (the provenance_template_uri)
      else label_predicate label)"

text \<open>
  The same in the words of the claim: the pubinfo-template list if given, else the label
  line.
\<close>

definition claimed_last_predicate :: "string \<Rightarrow> string list option \<Rightarrow> string" where
  "claimed_last_predicate label pubinfo_template_uris =
     (if truthy pubinfo_template_uris
      then pubinfo_templates_predicate (the pubinfo_template_uris)
      else label_predicate label)"

text \<open>The lines of pubinfo_metadata without their semicolons; used in the proofs.\<close>

definition metadata_predicates ::
  "string \<Rightarrow> string \<Rightarrow> string \<Rightarrow> string option \<Rightarrow> string list option \<Rightarrow> string list option
     \<Rightarrow> string option \<Rightarrow> string option \<Rightarrow> dict option \<Rightarrow> string list" where
  "metadata_predicates timestamp creator_orcid label provenance_template_uri pubinfo_template_uris
       nanopub_types introduces_uri supersedes is_part_of =
     [''  this: dct:created '' @ [dquote] @ timestamp @ [dquote] @ ''^^xsd:dateTime'',
      ''    dct:creator orcid:'' @ creator_orcid,
      ''    dct:license <https://creativecommons.org/licenses/by/4.0/>'']
     @ (if truthy nanopub_types
        then [''    npx:hasNanopubType ''
                @ join '', '' (map (\<lambda>t. ''<'' @ t @ ''>'') (the nanopub_types))]
        else [])
     @ (if truthy introduces_uri
        then [''    npx:introduces <'' @ the introduces_uri @ ''>''] else [])
     @ (if truthy supersedes
        then [''    npx:supersedes <'' @ the supersedes @ ''>''] else [])
     @ (if truthy is_part_of \<and> truthy (map_of (the is_part_of) ''uri'')
        then [''    <http://purl.org/dc/terms/isPartOf> <''
                @ the (map_of (the is_part_of) ''uri'') @ ''>'']
        else [])
     @ [''    npx:wasCreatedAt <https://nanodash.knowledgepixels.com/>'',
        label_predicate label]
     @ (if truthy provenance_template_uri
        then [provenance_template_predicate (the provenance_template_uri)] else [])
     @ (if truthy pubinfo_template_uris
        then [pubinfo_templates_predicate (the pubinfo_template_uris)] else [])"

text \<open>
  The \<^verbatim>\<open>this:\<close> block as it ends: the last predicate, then the custom-template predicate
  when there is one, the period on the final line only.
\<close>

definition block_end :: "string option \<Rightarrow> string \<Rightarrow> string list" where
  "block_end template_uri p =
     (if truthy template_uri
      then [p @ '' ;'', template_predicate (the template_uri) @ '' .'']
      else [p @ '' .''])"

text \<open>A block of text that neither starts nor ends with a line break.\<close>

definition clean_block :: "string \<Rightarrow> bool" where
  "clean_block s = (s \<noteq> [] \<and> hd s \<noteq> newline \<and> last s \<noteq> newline)"

text \<open>
  The condition under which line 121 of the source finds the key it indexes: an is_part_of
  dict that has a non-empty label has a uri. Line 147 tests the same key with
  \<^verbatim>\<open>is_part_of.get('uri')\<close>.
\<close>

definition part_of_has_uri :: "dict option \<Rightarrow> bool" where
  "part_of_has_uri is_part_of =
     (truthy is_part_of \<and> truthy (map_of (the is_part_of) ''label'')
        \<longrightarrow> map_of (the is_part_of) ''uri'' \<noteq> None)"

text \<open>The configuration of the end-to-end example of the specification; no dict objects.\<close>

definition example_config :: config where
  "example_config =
     \<lparr>cfg_creator_orcid = Value ''0000-0001-2345-6789'',
      cfg_creator_name = Value ''A. Researcher'',
      cfg_template_uri = Absent,
      cfg_supersedes = Absent,
      cfg_is_part_of = Absent,
      cfg_label = Value ''Test''\<rparr>"

definition example_store :: "ref \<Rightarrow> dict" where
  "example_store = (\<lambda>r. [])"

text \<open>
  A trivial assertion extension: it returns a one-triple graph block and leaves the
  generator as it was.
\<close>

definition example_assertion :: string where
  "example_assertion = ''sub:assertion {'' @ [newline] @ ''  <a> <b> <c> .'' @ [newline] @ ''}''"

definition example_extension :: "generator \<Rightarrow> error + string \<times> generator" where
  "example_extension self = Inr (example_assertion, self)"

text \<open>
  The same configuration with \<^verbatim>\<open>"is_part_of": {"label": "Review"}\<close>: the dict is object 0 of
  the store.
\<close>

definition label_only_config :: config where
  "label_only_config = example_config\<lparr>cfg_is_part_of := Value 0\<rparr>"

definition label_only_store :: "ref \<Rightarrow> dict" where
  "label_only_store = example_store(0 := [(''label'', ''Review'')])"

text \<open>
  An extension that returns the same block and sets both template attributes of the
  generator to None (\<^verbatim>\<open>self.PROVENANCE_TEMPLATE = None\<close>, \<^verbatim>\<open>self.PUBINFO_TEMPLATES = None\<close>).
\<close>

definition template_free_extension :: "generator \<Rightarrow> error + string \<times> generator" where
  "template_free_extension self =
     Inr (example_assertion,
          self\<lparr>self_PROVENANCE_TEMPLATE := None, self_PUBINFO_TEMPLATES := None\<rparr>)"

section \<open>Escaping: claims C5, C6, C7\<close>

lemma special_chars_distinct:
  "bslash \<noteq> dquote" "bslash \<noteq> newline" "bslash \<noteq> creturn" "dquote \<noteq> newline"
  "dquote \<noteq> creturn" "newline \<noteq> creturn"
  "bslash \<noteq> CHR ''n''" "bslash \<noteq> CHR ''r''" "dquote \<noteq> CHR ''n''" "dquote \<noteq> CHR ''r''"
  "newline \<noteq> CHR ''n''" "newline \<noteq> CHR ''r''" "creturn \<noteq> CHR ''n''" "creturn \<noteq> CHR ''r''"
  by (simp_all add: bslash_def dquote_def newline_def creturn_def)

lemma replace_append: "replace old new (xs @ ys) = replace old new xs @ replace old new ys"
  by (induction xs) auto

lemma escape_literal_Nil: "escape_literal [] = []"
  by (simp add: escape_literal_def)

lemma escape_literal_Cons: "escape_literal (c # cs) = escaped_form c @ escape_literal cs"
  using special_chars_distinct
  by (auto simp add: escape_literal_def escaped_form_def replace_append)

lemma escape_literal_concat: "escape_literal s = concat (map escaped_form s)"
  by (induction s) (simp_all add: escape_literal_Nil escape_literal_Cons)

lemma well_escaped_escaped_form: "well_escaped (escaped_form c @ r) = well_escaped r"
  using special_chars_distinct
  by (cases r) (auto simp add: escaped_form_def)

lemma well_escaped_escape_literal: "well_escaped (escape_literal s)"
  by (induction s) (simp_all add: escape_literal_Nil escape_literal_Cons well_escaped_escaped_form)

lemma closing_quote_escaped_form:
  "closing_quote (escaped_form c @ dquote # r) = closing_quote (dquote # r)"
  "closing_quote (escaped_form c @ escaped_form d @ r) = closing_quote (escaped_form d @ r)"
  using special_chars_distinct
  by (auto simp add: escaped_form_def)

lemma closing_quote_dquote: "closing_quote (dquote # r) = Some r"
  by (cases r) auto

lemma closing_quote_escape_literal: "closing_quote (escape_literal s @ dquote # r) = Some r"
proof (induction s)
  case Nil
  then show ?case by (simp add: escape_literal_Nil closing_quote_dquote)
next
  case (Cons c s)
  then show ?case
    by (cases s)
      (simp_all add: escape_literal_Nil escape_literal_Cons closing_quote_escaped_form
        closing_quote_dquote)
qed

lemma make_literal_eq:
  "make_literal v datatype lang = dquote # escape_literal v @ dquote # literal_suffix datatype lang"
  by (simp add: make_literal_def literal_suffix_def)

text \<open>
  Claim C5. escape_literal replaces each backslash, double quote, newline and carriage
  return by its two-character escaped form, once (the backslashes first, so that the
  backslashes the later replacements introduce are not escaped again). The result has no raw
  newline or carriage return and no double quote or backslash outside an escape sequence,
  and in a literal built by make_literal the first unescaped double quote after the opening
  one is the closing one: what follows it is the datatype or language suffix.
\<close>

theorem escape_literal_escapes:
  "escape_literal s = concat (map escaped_form s)
   \<and> well_escaped (escape_literal s)
   \<and> hd (make_literal s datatype lang) = dquote
   \<and> closing_quote (tl (make_literal s datatype lang)) = Some (literal_suffix datatype lang)"
  by (simp add: escape_literal_concat[symmetric] well_escaped_escape_literal make_literal_eq
      closing_quote_escape_literal)

theorem escape_literal_escapes_witness:
  "escape_literal [CHR ''a'', dquote, bslash, newline, creturn]
     = [CHR ''a'', bslash, dquote, bslash, bslash, bslash, CHR ''n'', bslash, CHR ''r'']
   \<and> well_escaped (escape_literal [CHR ''a'', dquote, bslash, newline, creturn])
   \<and> closing_quote (tl (make_literal [CHR ''a'', dquote, bslash, newline, creturn] None (Some ''en'')))
       = Some ''@en''"
  using escape_literal_escapes [of "[CHR ''a'', dquote, bslash, newline, creturn]" None "Some ''en''"]
  by (simp add: escaped_form_def literal_suffix_def bslash_def dquote_def newline_def creturn_def)

text \<open>
  Claim C6. make_literal wraps the escaped value in double quotes and appends
  \<^verbatim>\<open>^^datatype\<close> when a datatype is given, else \<^verbatim>\<open>@lang\<close> when a language tag is given, else
  nothing; with both, the datatype wins and the language tag is not emitted. Given means
  what the code tests: not None and not the empty string.
\<close>

theorem make_literal_shape:
  "make_literal v datatype lang = [dquote] @ escape_literal v @ [dquote] @ literal_suffix datatype lang
   \<and> (truthy datatype \<longrightarrow> literal_suffix datatype lang = ''^^'' @ the datatype)
   \<and> (\<not> truthy datatype \<and> truthy lang \<longrightarrow> literal_suffix datatype lang = ''@'' @ the lang)
   \<and> (\<not> truthy datatype \<and> \<not> truthy lang \<longrightarrow> literal_suffix datatype lang = [])
   \<and> make_literal [CHR ''a'', dquote, CHR ''b''] None (Some ''en'')
       = [dquote, CHR ''a'', bslash, dquote, CHR ''b'', dquote] @ ''@en''"
  by (simp add: make_literal_eq literal_suffix_def escape_literal_concat escaped_form_def
      bslash_def dquote_def newline_def creturn_def)

theorem make_literal_shape_witness:
  "truthy (Some ''xsd:integer'')
   \<and> make_literal ''42'' (Some ''xsd:integer'') (Some ''en'')
       = [dquote] @ ''42'' @ [dquote] @ ''^^xsd:integer''"
  using make_literal_shape [of "''42''" "Some ''xsd:integer''" "Some ''en''"]
  by (simp add: escape_literal_concat escaped_form_def bslash_def dquote_def newline_def
      creturn_def)

text \<open>
  Claim C7. make_uri wraps a value that starts with \<^verbatim>\<open>http://\<close> or \<^verbatim>\<open>https://\<close> in angle
  brackets, whatever the prefix; otherwise it returns \<^verbatim>\<open>prefix:value\<close> when a (non-empty)
  prefix is supplied, and the value in angle brackets when none is. The three examples of
  the specification are the last three conjuncts.
\<close>

theorem make_uri_cases:
  "(startswith v ''http://'' \<or> startswith v ''https://'' \<longrightarrow> make_uri v prefix = ''<'' @ v @ ''>'')
   \<and> (\<not> startswith v ''http://'' \<and> \<not> startswith v ''https://'' \<and> truthy prefix
        \<longrightarrow> make_uri v prefix = the prefix @ '':'' @ v)
   \<and> (\<not> startswith v ''http://'' \<and> \<not> startswith v ''https://'' \<and> \<not> truthy prefix
        \<longrightarrow> make_uri v prefix = ''<'' @ v @ ''>'')
   \<and> make_uri ''http://example.org/x'' None = ''<http://example.org/x>''
   \<and> make_uri ''x'' (Some ''ex'') = ''ex:x''
   \<and> make_uri ''x'' None = ''<x>''"
  by (simp add: make_uri_def startswith_def)

theorem make_uri_cases_witness:
  "startswith ''https://orcid.org/0'' ''https://''
   \<and> make_uri ''https://orcid.org/0'' (Some ''orcid'') = ''<https://orcid.org/0>''
   \<and> \<not> startswith ''Q42'' ''http://'' \<and> \<not> startswith ''Q42'' ''https://'' \<and> truthy (Some ''wd'')
   \<and> make_uri ''Q42'' (Some ''wd'') = ''wd:Q42''"
  using make_uri_cases [of "''https://orcid.org/0''" "Some ''orcid''"]
    make_uri_cases [of "''Q42''" "Some ''wd''"]
  by (simp add: startswith_def)

section \<open>Wikidata labels: claim C8\<close>

lemma dict_set_keys:
  "(\<forall>kv \<in> set (dict_set d k v). P (fst kv)) = (P k \<and> (\<forall>kv \<in> set d. P (fst kv)))"
  by (induction d k v rule: dict_set.induct) auto

lemma add_wikidata_label_keys:
  assumes "\<forall>k \<in> fst ` set (self_wikidata_labels self). startswith k ''http://www.wikidata.org/entity/''"
  shows "\<forall>k \<in> fst ` set (self_wikidata_labels (add_wikidata_label self uri label)).
           startswith k ''http://www.wikidata.org/entity/''"
  using assms
    dict_set_keys [of "self_wikidata_labels self" uri label
      "\<lambda>k. startswith k ''http://www.wikidata.org/entity/''"]
  by (simp add: add_wikidata_label_def)

lemma add_wikidata_labels_keys:
  "\<forall>k \<in> fst ` set (self_wikidata_labels self). startswith k ''http://www.wikidata.org/entity/''
   \<Longrightarrow> \<forall>k \<in> fst ` set (self_wikidata_labels (add_wikidata_labels self calls)).
           startswith k ''http://www.wikidata.org/entity/''"
proof (induction calls arbitrary: self)
  case Nil
  then show ?case by (simp add: add_wikidata_labels_def)
next
  case (Cons c calls)
  obtain uri label where c: "c = (uri, label)" by (cases c)
  have "add_wikidata_labels self (c # calls)
          = add_wikidata_labels (add_wikidata_label self uri label) calls"
    by (simp add: add_wikidata_labels_def c)
  with Cons.IH[OF add_wikidata_label_keys[OF Cons.prems]] show ?case by simp
qed

text \<open>
  Claim C8. After any run of add_wikidata_label calls on a generator made by \<^verbatim>\<open>__init__\<close>,
  every key of wikidata_labels starts with \<^verbatim>\<open>http://www.wikidata.org/entity/\<close>; a call with
  a URI outside that namespace returns the generator unchanged, raising nothing.
\<close>

theorem wikidata_labels_namespace:
  "(\<forall>k \<in> fst ` set (self_wikidata_labels (add_wikidata_labels (init cfg uri store) calls)).
       startswith k ''http://www.wikidata.org/entity/'')
   \<and> (\<not> startswith u ''http://www.wikidata.org/entity/''
        \<longrightarrow> add_wikidata_label self u label = self)"
proof -
  have "\<forall>k \<in> fst ` set (self_wikidata_labels (init cfg uri store)).
          startswith k ''http://www.wikidata.org/entity/''"
    by (simp add: init_def)
  from add_wikidata_labels_keys[OF this] show ?thesis
    by (simp add: add_wikidata_label_def)
qed

theorem wikidata_labels_namespace_witness:
  "self_wikidata_labels
     (add_wikidata_labels (init example_config ''u'' example_store)
        [(''http://www.wikidata.org/entity/Q1'', ''universe''),
         (''http://example.org/Q2'', ''other''),
         (''http://www.wikidata.org/entity/Q1'', ''Universe'')])
     = [(''http://www.wikidata.org/entity/Q1'', ''Universe'')]
   \<and> \<not> startswith ''http://example.org/Q2'' ''http://www.wikidata.org/entity/''
   \<and> add_wikidata_label (init example_config ''u'' example_store) ''http://example.org/Q2'' ''other'' = init example_config ''u'' example_store"
  using wikidata_labels_namespace [of example_config "''u''" example_store
      "[(''http://www.wikidata.org/entity/Q1'', ''universe''),
        (''http://example.org/Q2'', ''other''),
        (''http://www.wikidata.org/entity/Q1'', ''Universe'')]"
      "''http://example.org/Q2''" "init example_config ''u'' example_store" "''other''"]
  by (simp add: add_wikidata_labels_def add_wikidata_label_def init_def startswith_def)

section \<open>Validation: claim C4\<close>

lemma join_contains: "f \<in> set xs \<Longrightarrow> \<exists>a b. join sep xs = a @ f @ b"
proof (induction sep xs rule: join.induct)
  case (1 sep)
  then show ?case by simp
next
  case (2 sep x)
  then have "join sep [x] = [] @ f @ []" by simp
  then show ?case by blast
next
  case (3 sep x y ys)
  show ?case
  proof (cases "f = x")
    case True
    then have "join sep (x # y # ys) = [] @ f @ (sep @ join sep (y # ys))" by simp
    then show ?thesis by blast
  next
    case False
    with 3 obtain a b where "join sep (y # ys) = a @ f @ b" by auto
    then have "join sep (x # y # ys) = (x @ sep @ a) @ f @ b" by simp
    then show ?thesis by blast
  qed
qed

text \<open>What the code does on every dict: it applies Python's truth test to the value.\<close>

lemma validate_required_fields_truth_test:
  "raises (validate_required_fields config required)
     = (\<exists>f \<in> set required. absent_or_false config f)
   \<and> (raises (validate_required_fields config required) \<longrightarrow>
        validate_required_fields config required
          = Inl (ValueError (''Missing required fields: ''
                              @ join '', '' (filter (absent_or_false config) required)))
        \<and> (\<forall>f \<in> set required. absent_or_false config f \<longrightarrow>
              (\<exists>a b. message (validate_required_fields config required) = a @ f @ b)))"
proof -
  have m: "missing_fields config required = filter (absent_or_false config) required"
    by (simp add: missing_fields_def absent_or_false_def [abs_def])
  have r: "raises (validate_required_fields config required)
             = (\<exists>f \<in> set required. absent_or_false config f)"
    by (auto simp add: validate_required_fields_def raises_def Let_def m filter_empty_conv)
  have c: "\<exists>a b. ''Missing required fields: '' @ join '', '' (filter (absent_or_false config) required) = a @ f @ b"
    if "f \<in> set required" "absent_or_false config f" for f
  proof -
    from that have "f \<in> set (filter (absent_or_false config) required)" by simp
    from join_contains[OF this] obtain a b
      where "join '', '' (filter (absent_or_false config) required) = a @ f @ b" by blast
    then have "''Missing required fields: '' @ join '', '' (filter (absent_or_false config) required)
                 = (''Missing required fields: '' @ a) @ f @ b" by simp
    then show ?thesis by blast
  qed
  show ?thesis using r c
    by (auto simp add: validate_required_fields_def raises_def message_def Let_def m
        simp del: append.simps)
qed

lemma data_model_truth_value: "data_model_value v \<Longrightarrow> (\<not> truth_value v) = empty_value v"
  by (cases v) simp_all

lemma configuration_record_empty:
  assumes "configuration_record config"
  shows "absent_or_false config = absent_or_empty config"
proof
  fix f
  show "absent_or_false config f = absent_or_empty config f"
  proof (cases "map_of config f")
    case None
    then show ?thesis by (simp add: absent_or_false_def absent_or_empty_def)
  next
    case (Some v)
    then have "(f, v) \<in> set config" by (rule map_of_SomeD)
    with assms have "data_model_value v"
      by (auto simp add: configuration_record_def list_all_iff)
    with Some show ?thesis
      by (simp add: absent_or_false_def absent_or_empty_def data_model_truth_value)
  qed
qed

text \<open>
  Claim C4. For every configuration record, that is a dict whose values are of the kinds
  the data model of the specification lists (strings, records, sequences) or null, and
  every list of required field names, validate_required_fields raises if and only if some
  required field is absent from the configuration or has an empty value. The error is a
  ValueError, and its message is \<^verbatim>\<open>Missing required fields: \<close> followed by every such field,
  in the order of the required list, joined by a comma and a space, so each of them occurs
  in it. The function returns an error or unit and has no other effect: nothing is output
  before the error. On a value outside the data model, a boolean or a number, the code
  applies Python's truth test (lemma \<open>validate_required_fields_truth_test\<close>).
\<close>

theorem validate_required_fields_raises:
  assumes "configuration_record config"
  shows "raises (validate_required_fields config required)
           = (\<exists>f \<in> set required. absent_or_empty config f)
         \<and> (raises (validate_required_fields config required) \<longrightarrow>
              validate_required_fields config required
                = Inl (ValueError (''Missing required fields: ''
                                    @ join '', '' (filter (absent_or_empty config) required)))
              \<and> (\<forall>f \<in> set required. absent_or_empty config f \<longrightarrow>
                    (\<exists>a b. message (validate_required_fields config required) = a @ f @ b)))"
  using validate_required_fields_truth_test [of config required]
  unfolding configuration_record_empty [OF assms] .

theorem validate_required_fields_raises_witness:
  "configuration_record [(''label'', JStr []), (''creator_name'', JStr ''A. Researcher'')]
   \<and> raises (validate_required_fields
               [(''label'', JStr []), (''creator_name'', JStr ''A. Researcher'')]
               [''creator_orcid'', ''creator_name'', ''label''])
   \<and> validate_required_fields
         [(''label'', JStr []), (''creator_name'', JStr ''A. Researcher'')]
         [''creator_orcid'', ''creator_name'', ''label'']
       = Inl (ValueError ''Missing required fields: creator_orcid, label'')"
proof -
  have c: "configuration_record
             [(''label'', JStr []), (''creator_name'', JStr ''A. Researcher'')]"
    by (simp add: configuration_record_def)
  from validate_required_fields_raises [OF c, of "[''creator_orcid'', ''creator_name'', ''label'']"] c
  show ?thesis by (simp add: absent_or_empty_def)
qed

section \<open>The pubinfo graph: claims C1 and C2\<close>

lemma startswith_simps:
  "startswith s []"
  "\<not> startswith [] (d # q)"
  "startswith (c # s) (d # q) = (c = d \<and> startswith s q)"
  by (auto simp add: startswith_def)

lemma endswith_append: "endswith (a @ p) p"
  by (simp add: endswith_def)

lemma rstrip_terminated:
  assumes "c \<noteq> []" "last c \<noteq> CHR '' ''" "last c \<noteq> CHR '';''"
  shows "rstrip (c @ '' ;'') '' ;'' = c"
proof -
  from assms(1) obtain b x where c: "c = b @ [x]" by (metis rev_exhaust)
  with assms show ?thesis by (simp add: rstrip_def)
qed

lemma not_endswith_period:
  assumes "c \<noteq> []" "last c \<noteq> CHR ''.''"
  shows "\<not> endswith c '' .''"
proof -
  from assms(1) obtain b x where c: "c = b @ [x]" by (metis rev_exhaust)
  with assms show ?thesis by (simp add: endswith_def)
qed

lemma last_join:
  "xs \<noteq> [] \<Longrightarrow> last xs \<noteq> [] \<Longrightarrow> join sep xs \<noteq> [] \<and> last (join sep xs) = last (last xs)"
  by (induction sep xs rule: join.induct) auto

lemma hd_join: "x \<noteq> [] \<Longrightarrow> join sep (x # xs) \<noteq> [] \<and> hd (join sep (x # xs)) = hd x"
  by (cases xs) auto

lemma last_predicate_end:
  "last_predicate label prov pubs \<noteq> [] \<and>
   last (last_predicate label prov pubs) \<in> {dquote, CHR ''>''}"
proof (cases "truthy pubs")
  case True
  then obtain us where us: "pubs = Some us" "us \<noteq> []" by (cases pubs) auto
  let ?xs = "map (\<lambda>t. ''<'' @ t @ ''>'') us"
  have "?xs \<noteq> []" "last ?xs \<noteq> []" using us by (simp_all add: last_map)
  from last_join[OF this] have "join ('','' @ [newline] @ ''      '') ?xs \<noteq> []"
    "last (join ('','' @ [newline] @ ''      '') ?xs) = CHR ''>''"
    using us by (simp_all add: last_map)
  then show ?thesis using True us
    by (simp add: last_predicate_def pubinfo_templates_predicate_def)
next
  case False
  then show ?thesis
    by (simp add: last_predicate_def provenance_template_predicate_def label_predicate_def
        make_literal_eq literal_suffix_def)
qed

lemma terminate_block_last:
  assumes "c \<noteq> []" "last c \<in> {dquote, CHR ''>''}"
  shows "terminate_block t (xs @ [c @ '' ;'']) = xs @ block_end t c"
proof -
  have l: "last c \<noteq> CHR '' ''" "last c \<noteq> CHR '';''" "last c \<noteq> CHR ''.''"
    using assms(2) by (auto simp add: dquote_def)
  have r: "rstrip (c @ '' ;'') '' ;'' = c" using rstrip_terminated[OF assms(1) l(1,2)] .
  have e: "\<not> endswith c '' .''" using not_endswith_period[OF assms(1) l(3)] .
  show ?thesis using r e by (simp add: terminate_block_def block_end_def Let_def)
qed

lemma pubinfo_metadata_map:
  "pubinfo_metadata ts orcid label prov pubs types intro supers ipo =
     map (\<lambda>p. p @ '' ;'') (metadata_predicates ts orcid label prov pubs types intro supers ipo)"
  by (simp add: pubinfo_metadata_def metadata_predicates_def)

lemma metadata_predicates_last:
  "metadata_predicates ts orcid label prov pubs types intro supers ipo =
     butlast (metadata_predicates ts orcid label prov pubs types intro supers ipo)
     @ [last_predicate label prov pubs]"
  by (simp add: metadata_predicates_def last_predicate_def butlast_append)

lemma metadata_predicates_indent:
  "list_all (\<lambda>p. \<not> startswith (p @ r) ''  <'')
     (metadata_predicates ts orcid label prov pubs types intro supers ipo)"
  by (simp add: metadata_predicates_def startswith_simps label_predicate_def
      provenance_template_predicate_def pubinfo_templates_predicate_def)

lemma metadata_predicates_hd:
  "butlast (metadata_predicates ts orcid label prov pubs types intro supers ipo) \<noteq> []
   \<and> startswith
       (hd (butlast (metadata_predicates ts orcid label prov pubs types intro supers ipo)) @ r)
       ''  this: ''"
  by (simp add: metadata_predicates_def startswith_simps butlast_append)

text \<open>The shape of the lines that generate_pubinfo_graph joins.\<close>

lemma pubinfo_lines_shape:
  "pubinfo_lines ts nuri sp orcid name label t prov pubs types intro wd supers ipo =
     (case pubinfo_labels sp orcid name wd ipo of
        Inl e \<Rightarrow> Inl e
      | Inr front \<Rightarrow>
          Inr (front
               @ map (\<lambda>p. p @ '' ;'')
                   (butlast (metadata_predicates ts orcid label prov pubs types intro supers ipo))
               @ block_end t (last_predicate label prov pubs) @ [''}'']))"
proof (cases "pubinfo_labels sp orcid name wd ipo")
  case (Inl e)
  then show ?thesis by (simp add: pubinfo_lines_def)
next
  case (Inr front)
  let ?M = "metadata_predicates ts orcid label prov pubs types intro supers ipo"
  let ?lp = "last_predicate label prov pubs"
  have "map (\<lambda>p. p @ '' ;'') ?M = map (\<lambda>p. p @ '' ;'') (butlast ?M) @ [?lp @ '' ;'']"
    by (subst metadata_predicates_last) simp
  then have "terminate_block t (front @ pubinfo_metadata ts orcid label prov pubs types intro supers ipo)
               = terminate_block t ((front @ map (\<lambda>p. p @ '' ;'') (butlast ?M)) @ [?lp @ '' ;''])"
    by (simp add: pubinfo_metadata_map)
  also have "\<dots> = (front @ map (\<lambda>p. p @ '' ;'') (butlast ?M)) @ block_end t ?lp"
    using last_predicate_end[of label prov pubs] by (intro terminate_block_last) auto
  finally show ?thesis using Inr by (simp add: pubinfo_lines_def)
qed

text \<open>
  Claim C1, as the code has it. Whenever generate_pubinfo_graph returns, the lines it joins
  are the label section, then the predicates of the \<^verbatim>\<open>this:\<close> subject, each ending in
  \<^verbatim>\<open> ;\<close>, then the end of the block, then the closing brace. With a template_uri the block
  ends with the last predicate still terminated by \<^verbatim>\<open> ;\<close> and then the
  \<^verbatim>\<open>nt:wasCreatedFromTemplate\<close> line terminated by \<^verbatim>\<open> .\<close>; without one it ends with the
  last predicate terminated by \<^verbatim>\<open> .\<close>. The last predicate is the pubinfo-template list if
  given, else the provenance-template line if given, else the label line. It ends in a
  double quote or \<^verbatim>\<open>>\<close>, so the terminator that follows it is the only one: the block has
  exactly one period, on its final line. Lines are the elements of the list the code
  joins; supplied and omitted are the code's truth test.
\<close>

theorem this_block_terminator:
  assumes "pubinfo_lines ts nuri sp orcid name label t prov pubs types intro wd supers ipo = Inr ls"
  shows "\<exists>front mid.
           pubinfo_labels sp orcid name wd ipo = Inr front
           \<and> mid \<noteq> [] \<and> startswith (hd mid) ''  this: ''
           \<and> (\<forall>x \<in> set mid. endswith x '' ;'')
           \<and> (truthy t \<longrightarrow>
                ls = front @ mid @ [last_predicate label prov pubs @ '' ;'',
                                    template_predicate (the t) @ '' .'', ''}''])
           \<and> (\<not> truthy t \<longrightarrow>
                ls = front @ mid @ [last_predicate label prov pubs @ '' .'', ''}''])
           \<and> last (last_predicate label prov pubs) \<in> {dquote, CHR ''>''}
           \<and> last (template_predicate (the t)) = CHR ''>''"
proof -
  let ?M = "metadata_predicates ts orcid label prov pubs types intro supers ipo"
  let ?mid = "map (\<lambda>p. p @ '' ;'') (butlast ?M)"
  from assms obtain front where f: "pubinfo_labels sp orcid name wd ipo = Inr front"
    and ls: "ls = front @ ?mid @ block_end t (last_predicate label prov pubs) @ [''}'']"
    by (auto simp add: pubinfo_lines_shape split: sum.splits)
  have h: "?mid \<noteq> []" "startswith (hd ?mid) ''  this: ''"
    using metadata_predicates_hd[of ts orcid label prov pubs types intro supers ipo "'' ;''"]
    by (simp_all add: hd_map)
  have e: "\<forall>x \<in> set ?mid. endswith x '' ;''"
    by (auto simp add: endswith_append)
  show ?thesis
    using f ls h e last_predicate_end[of label prov pubs]
    by (intro exI[of _ front] exI[of _ ?mid])
      (simp add: block_end_def template_predicate_def)
qed

theorem this_block_terminator_witness:
  "pubinfo_lines ''2026-01-01T00:00:00.000Z'' ''https://w3id.org/np/RA1'' ''sub''
     ''0000-0001-2345-6789'' ''A. Researcher'' ''Test'' (Some ''https://w3id.org/np/T'')
     (Some ''https://w3id.org/np/P'') None None None None None None
   = Inr [''sub:pubinfo {'',
          ''  orcid:0000-0001-2345-6789 foaf:name '' @ [dquote] @ ''A. Researcher'' @ [dquote] @ '' .'',
          [],
          ''  this: dct:created '' @ [dquote] @ ''2026-01-01T00:00:00.000Z'' @ [dquote]
            @ ''^^xsd:dateTime ;'',
          ''    dct:creator orcid:0000-0001-2345-6789 ;'',
          ''    dct:license <https://creativecommons.org/licenses/by/4.0/> ;'',
          ''    npx:wasCreatedAt <https://nanodash.knowledgepixels.com/> ;'',
          ''    rdfs:label '' @ [dquote] @ ''Test'' @ [dquote] @ '' ;'',
          ''    nt:wasCreatedFromProvenanceTemplate <https://w3id.org/np/P> ;'',
          ''    nt:wasCreatedFromTemplate <https://w3id.org/np/T> .'',
          ''}'']
   \<and> last (last_predicate ''Test'' (Some ''https://w3id.org/np/P'') None) \<in> {dquote, CHR ''>''}
   \<and> last (template_predicate ''https://w3id.org/np/T'') = CHR ''>''"
proof -
  have ev: "pubinfo_lines ''2026-01-01T00:00:00.000Z'' ''https://w3id.org/np/RA1'' ''sub''
     ''0000-0001-2345-6789'' ''A. Researcher'' ''Test'' (Some ''https://w3id.org/np/T'')
     (Some ''https://w3id.org/np/P'') None None None None None None
   = Inr [''sub:pubinfo {'',
          ''  orcid:0000-0001-2345-6789 foaf:name '' @ [dquote] @ ''A. Researcher'' @ [dquote] @ '' .'',
          [],
          ''  this: dct:created '' @ [dquote] @ ''2026-01-01T00:00:00.000Z'' @ [dquote]
            @ ''^^xsd:dateTime ;'',
          ''    dct:creator orcid:0000-0001-2345-6789 ;'',
          ''    dct:license <https://creativecommons.org/licenses/by/4.0/> ;'',
          ''    npx:wasCreatedAt <https://nanodash.knowledgepixels.com/> ;'',
          ''    rdfs:label '' @ [dquote] @ ''Test'' @ [dquote] @ '' ;'',
          ''    nt:wasCreatedFromProvenanceTemplate <https://w3id.org/np/P> ;'',
          ''    nt:wasCreatedFromTemplate <https://w3id.org/np/T> .'',
          ''}'']"
    by (simp add: pubinfo_lines_def pubinfo_labels_def pubinfo_metadata_def terminate_block_def
        creator_triple_def label_predicate_def provenance_template_predicate_def
        template_predicate_def make_literal_def escape_literal_def rstrip_def endswith_def
        bslash_def dquote_def newline_def creturn_def Let_def)
  from this_block_terminator [OF ev] ev show ?thesis by auto
qed

text \<open>
  Claim C1 as stated names the label line as the last predicate whenever no pubinfo-template
  list is given. With a provenance template and no pubinfo templates the label line keeps
  its semicolon and the provenance-template line carries the period.
\<close>

theorem this_block_terminator_counterexample:
  "pubinfo_lines ''2026-01-01T00:00:00.000Z'' ''https://w3id.org/np/RA1'' ''sub''
     ''0000-0001-2345-6789'' ''A. Researcher'' ''Test'' None
     (Some ''https://w3id.org/np/P'') None None None None None None
   = Inr [''sub:pubinfo {'',
          ''  orcid:0000-0001-2345-6789 foaf:name '' @ [dquote] @ ''A. Researcher'' @ [dquote] @ '' .'',
          [],
          ''  this: dct:created '' @ [dquote] @ ''2026-01-01T00:00:00.000Z'' @ [dquote]
            @ ''^^xsd:dateTime ;'',
          ''    dct:creator orcid:0000-0001-2345-6789 ;'',
          ''    dct:license <https://creativecommons.org/licenses/by/4.0/> ;'',
          ''    npx:wasCreatedAt <https://nanodash.knowledgepixels.com/> ;'',
          ''    rdfs:label '' @ [dquote] @ ''Test'' @ [dquote] @ '' ;'',
          ''    nt:wasCreatedFromProvenanceTemplate <https://w3id.org/np/P> .'',
          ''}'']
   \<and> claimed_last_predicate ''Test'' None @ '' .''
       = ''    rdfs:label '' @ [dquote] @ ''Test'' @ [dquote] @ '' .''
   \<and> claimed_last_predicate ''Test'' None @ '' .''
       \<noteq> ''    nt:wasCreatedFromProvenanceTemplate <https://w3id.org/np/P> .''"
  by (simp add: pubinfo_lines_def pubinfo_labels_def pubinfo_metadata_def terminate_block_def
      creator_triple_def label_predicate_def provenance_template_predicate_def
      claimed_last_predicate_def make_literal_def escape_literal_def rstrip_def endswith_def
      bslash_def dquote_def newline_def creturn_def Let_def)

lemma block_end_indent:
  "\<forall>x \<in> set (block_end t (last_predicate label prov pubs)). \<not> startswith x ''  <''"
proof -
  have "\<not> startswith (last_predicate label prov pubs @ r) ''  <''" for r
    by (simp add: last_predicate_def startswith_simps label_predicate_def
        provenance_template_predicate_def pubinfo_templates_predicate_def)
  then show ?thesis
    by (simp add: block_end_def template_predicate_def startswith_simps)
qed

text \<open>
  Claim C2. With one entry in wikidata_labels and an is_part_of that has a uri and a
  (non-empty) label, the pubinfo graph starts with its header, the label triple of the
  Wikidata entry, an empty line, the label triple of the is_part_of reference, an empty
  line, the creator-name triple and an empty line; no later line is a label triple (each
  of the others starts with \<^verbatim>\<open>  this: \<close>, four spaces or the closing brace).
\<close>

theorem two_label_triples:
  assumes "map_of d ''uri'' = Some u" and "map_of d ''label'' = Some l" and "l \<noteq> []"
  shows "\<exists>rest.
           pubinfo_lines ts nuri sp orcid name label t prov pubs types intro (Some [(wu, wl)])
               supers (Some d)
             = Inr ([sp @ '':pubinfo {'',
                     ''  <'' @ wu @ ''> nt:hasLabelFromApi '' @ make_literal wl None None @ '' .'',
                     [],
                     ''  <'' @ u @ ''> nt:hasLabelFromApi '' @ make_literal l None None @ '' .'',
                     [],
                     ''  orcid:'' @ orcid @ '' foaf:name '' @ make_literal name None None @ '' .'',
                     []] @ rest)
           \<and> (\<forall>x \<in> set rest. \<not> startswith x ''  <'')
           \<and> startswith (hd rest) ''  this: ''
           \<and> generate_pubinfo_graph ts nuri sp orcid name label t prov pubs types intro
                 (Some [(wu, wl)]) supers (Some d)
             = Inr (sp @ '':pubinfo {'' @ [newline]
                    @ ''  <'' @ wu @ ''> nt:hasLabelFromApi '' @ make_literal wl None None @ '' .''
                    @ [newline] @ [newline]
                    @ ''  <'' @ u @ ''> nt:hasLabelFromApi '' @ make_literal l None None @ '' .''
                    @ [newline] @ [newline]
                    @ ''  orcid:'' @ orcid @ '' foaf:name '' @ make_literal name None None @ '' .''
                    @ [newline] @ [newline] @ join [newline] rest)"
proof -
  let ?M = "metadata_predicates ts orcid label prov pubs types intro supers (Some d)"
  let ?mid = "map (\<lambda>p. p @ '' ;'') (butlast ?M)"
  let ?rest = "?mid @ block_end t (last_predicate label prov pubs) @ [''}'']"
  from assms have d: "d \<noteq> []" by auto
  have front: "pubinfo_labels sp orcid name (Some [(wu, wl)]) (Some d)
      = Inr [sp @ '':pubinfo {'', label_triple wu wl, [], label_triple u l, [],
             creator_triple orcid name, []]"
    using assms d by (simp add: pubinfo_labels_def)
  have lines: "pubinfo_lines ts nuri sp orcid name label t prov pubs types intro (Some [(wu, wl)])
               supers (Some d)
      = Inr ([sp @ '':pubinfo {'', label_triple wu wl, [], label_triple u l, [],
              creator_triple orcid name, []] @ ?rest)"
    by (simp add: pubinfo_lines_shape front)
  have "list_all (\<lambda>p. \<not> startswith (p @ '' ;'') ''  <'') (butlast ?M)"
    using metadata_predicates_indent[of "'' ;''" ts orcid label prov pubs types intro supers "Some d"]
    by (metis (no_types, lifting) in_set_butlastD list_all_iff)
  then have i1: "\<forall>x \<in> set ?mid. \<not> startswith x ''  <''"
    by (auto simp add: list_all_iff)
  have i: "\<forall>x \<in> set ?rest. \<not> startswith x ''  <''"
    using i1 block_end_indent[of t label prov pubs] by (auto simp add: startswith_simps)
  have h: "?mid \<noteq> []" "startswith (hd ?mid) ''  this: ''"
    using metadata_predicates_hd[of ts orcid label prov pubs types intro supers "Some d" "'' ;''"]
    by (simp_all add: hd_map)
  then have h': "startswith (hd ?rest) ''  this: ''" by simp
  from h obtain r rs where r: "?rest = r # rs" by (cases ?rest) auto
  have g: "generate_pubinfo_graph ts nuri sp orcid name label t prov pubs types intro
                 (Some [(wu, wl)]) supers (Some d)
             = Inr (sp @ '':pubinfo {'' @ [newline]
                    @ label_triple wu wl @ [newline] @ [newline]
                    @ label_triple u l @ [newline] @ [newline]
                    @ creator_triple orcid name @ [newline] @ [newline] @ join [newline] ?rest)"
    unfolding generate_pubinfo_graph_def lines r by simp
  show ?thesis
    using lines i h' g
    by (intro exI[of _ ?rest]) (simp add: label_triple_def creator_triple_def)
qed

theorem two_label_triples_witness:
  "map_of [(''uri'', ''https://example.org/review''), (''label'', ''Review'')] ''uri''
     = Some ''https://example.org/review''
   \<and> map_of [(''uri'', ''https://example.org/review''), (''label'', ''Review'')] ''label''
     = Some ''Review''
   \<and> (\<exists>rest.
         pubinfo_lines ''2026-01-01T00:00:00.000Z'' ''https://w3id.org/np/RA1'' ''sub''
             ''0000-0001-2345-6789'' ''A. Researcher'' ''Test'' None None None None None
             (Some [(''http://www.wikidata.org/entity/Q42'', ''Douglas Adams'')]) None
             (Some [(''uri'', ''https://example.org/review''), (''label'', ''Review'')])
           = Inr ([''sub:pubinfo {'',
                   ''  <http://www.wikidata.org/entity/Q42> nt:hasLabelFromApi ''
                     @ [dquote] @ ''Douglas Adams'' @ [dquote] @ '' .'',
                   [],
                   ''  <https://example.org/review> nt:hasLabelFromApi ''
                     @ [dquote] @ ''Review'' @ [dquote] @ '' .'',
                   [],
                   ''  orcid:0000-0001-2345-6789 foaf:name ''
                     @ [dquote] @ ''A. Researcher'' @ [dquote] @ '' .'',
                   []] @ rest))"
proof -
  have a: "map_of [(''uri'', ''https://example.org/review''), (''label'', ''Review'')] ''uri''
             = Some ''https://example.org/review''"
    and b: "map_of [(''uri'', ''https://example.org/review''), (''label'', ''Review'')] ''label''
             = Some ''Review''"
    and c: "''Review'' \<noteq> []"
    by simp_all
  from two_label_triples [OF a b c, of "''2026-01-01T00:00:00.000Z''" "''https://w3id.org/np/RA1''"
      "''sub''" "''0000-0001-2345-6789''" "''A. Researcher''" "''Test''" None None None None None
      "''http://www.wikidata.org/entity/Q42''" "''Douglas Adams''" None]
  obtain rest where
    "pubinfo_lines ''2026-01-01T00:00:00.000Z'' ''https://w3id.org/np/RA1'' ''sub''
             ''0000-0001-2345-6789'' ''A. Researcher'' ''Test'' None None None None None
             (Some [(''http://www.wikidata.org/entity/Q42'', ''Douglas Adams'')]) None
             (Some [(''uri'', ''https://example.org/review''), (''label'', ''Review'')])
           = Inr ([''sub:pubinfo {'',
                   ''  <http://www.wikidata.org/entity/Q42> nt:hasLabelFromApi ''
                     @ make_literal ''Douglas Adams'' None None @ '' .'',
                   [],
                   ''  <https://example.org/review> nt:hasLabelFromApi ''
                     @ make_literal ''Review'' None None @ '' .'',
                   [],
                   ''  orcid:0000-0001-2345-6789 foaf:name ''
                     @ make_literal ''A. Researcher'' None None @ '' .'',
                   []] @ rest)"
    by auto
  moreover have "make_literal ''Douglas Adams'' None None = [dquote] @ ''Douglas Adams'' @ [dquote]"
    "make_literal ''Review'' None None = [dquote] @ ''Review'' @ [dquote]"
    "make_literal ''A. Researcher'' None None = [dquote] @ ''A. Researcher'' @ [dquote]"
    by (simp_all add: make_literal_def escape_literal_def bslash_def dquote_def newline_def
        creturn_def)
  ultimately show ?thesis using a b by (intro conjI exI[of _ rest]) simp_all
qed

section \<open>The assembled document: claims C3 and C10\<close>

lemma clean_block_prefixes: "clean_block (get_prefixes_block self)"
proof -
  let ?a = "''@prefix this: <'' @ self_nanopub_uri self @ ''> .''"
  let ?b = "''@prefix '' @ self_sub_prefix self @ '': <'' @ self_nanopub_uri self @ ''/> .''"
  let ?f = "\<lambda>prefix. ''@prefix '' @ prefix @ '': <'' @ the (map_of PREFIXES prefix) @ ''> .''"
  let ?ps = "filter (\<lambda>prefix. map_of PREFIXES prefix \<noteq> None)
               (sorted_list_of_set (self_used_prefixes self))"
  let ?L = "?b # map ?f ?ps"
  have g: "get_prefixes_block self = join [newline] (?a # ?L)"
    by (simp add: get_prefixes_block_def)
  have l: "last (?a # ?L) \<noteq> [] \<and> last (last (?a # ?L)) = CHR ''.''"
    by (cases "?ps = []") (simp_all add: last_map)
  have "?a \<noteq> []" by simp
  from hd_join[OF this, of "[newline]" ?L]
  have h: "join [newline] (?a # ?L) \<noteq> []" "hd (join [newline] (?a # ?L)) = CHR ''@''"
    by simp_all
  from l last_join[of "?a # ?L" "[newline]"]
  have "last (join [newline] (?a # ?L)) = CHR ''.''" by simp
  with h show ?thesis unfolding g clean_block_def by (simp add: newline_def)
qed

lemma hd_sub_prefix:
  "\<not> startswith sp [newline] \<Longrightarrow> r \<noteq> [] \<Longrightarrow> hd r \<noteq> newline \<Longrightarrow> hd (sp @ r) \<noteq> newline"
  by (cases sp) (simp_all add: startswith_def)

lemma clean_block_head:
  "\<not> startswith sp [newline] \<Longrightarrow> clean_block (generate_head_graph sp)"
  using hd_sub_prefix[of sp]
  by (simp add: clean_block_def generate_head_graph_def newline_def)

lemma clean_block_provenance:
  "\<not> startswith sp [newline] \<Longrightarrow> clean_block (generate_provenance_graph sp orcid)"
  using hd_sub_prefix[of sp]
  by (simp add: clean_block_def generate_provenance_graph_def newline_def)

lemma pubinfo_labels_front:
  "part_of_has_uri ipo \<Longrightarrow>
   \<exists>fs. pubinfo_labels sp orcid name wd ipo = Inr ((sp @ '':pubinfo {'') # fs)"
  by (auto simp add: pubinfo_labels_def part_of_has_uri_def Let_def split: option.splits)

lemma pubinfo_graph_clean:
  assumes "part_of_has_uri ipo" "\<not> startswith sp [newline]"
  shows "\<exists>pubinfo.
           generate_pubinfo_graph ts nuri sp orcid name label t prov pubs types intro wd supers ipo
             = Inr pubinfo
           \<and> clean_block pubinfo \<and> startswith pubinfo (sp @ '':pubinfo {'')"
proof -
  from pubinfo_labels_front[OF assms(1)] obtain fs
    where fs: "pubinfo_labels sp orcid name wd ipo = Inr ((sp @ '':pubinfo {'') # fs)" by blast
  let ?h = "sp @ '':pubinfo {''"
  let ?rest = "fs @ map (\<lambda>p. p @ '' ;'')
                   (butlast (metadata_predicates ts orcid label prov pubs types intro supers ipo))
               @ block_end t (last_predicate label prov pubs) @ [''}'']"
  have ls: "pubinfo_lines ts nuri sp orcid name label t prov pubs types intro wd supers ipo
              = Inr (?h # ?rest)"
    by (simp add: pubinfo_lines_shape fs)
  then have g: "generate_pubinfo_graph ts nuri sp orcid name label t prov pubs types intro wd
                  supers ipo = Inr (join [newline] (?h # ?rest))"
    by (simp add: generate_pubinfo_graph_def)
  have ne: "?h \<noteq> []" by simp
  have hd: "hd (join [newline] (?h # ?rest)) \<noteq> newline" "join [newline] (?h # ?rest) \<noteq> []"
    using hd_join[OF ne, of "[newline]" ?rest] hd_sub_prefix[OF assms(2), of "'':pubinfo {''"]
    by (simp_all add: newline_def)
  have "last (?h # ?rest) = ''}''" by simp
  with last_join[of "?h # ?rest" "[newline]"]
  have la: "last (join [newline] (?h # ?rest)) \<noteq> newline" by (simp add: newline_def)
  obtain r rs where r: "?rest = r # rs" by (cases ?rest) auto
  have "join [newline] (?h # ?rest) = ?h @ [newline] @ join [newline] ?rest"
    unfolding r by simp
  then have st: "startswith (join [newline] (?h # ?rest)) ?h"
    by (simp add: startswith_def)
  show ?thesis using g hd la st by (simp add: clean_block_def)
qed

text \<open>
  What \<open>generate\<close> returns when line 121 finds the key it indexes: the five blocks, the
  fifth being what generate_pubinfo_graph returns for the attributes of the generator and
  the is_part_of dict as the extension has left them.
\<close>

lemma generate_returns:
  assumes "assertion_method self = Inr (assertion, self')"
    and "\<not> startswith (self_sub_prefix self') [newline]"
    and "part_of_has_uri
           (map_option (self_store self') (get (cfg_is_part_of (self_config self)) None))"
  shows "\<exists>pubinfo.
           generate_pubinfo_graph ts (self_nanopub_uri self') (self_sub_prefix self')
               (str (get (cfg_creator_orcid (self_config self)) (Some ''0000-0000-0000-0000'')))
               (str (get (cfg_creator_name (self_config self)) (Some ''Unknown'')))
               (str (get (cfg_label (self_config self')) (Some ''Nanopublication'')))
               (get (cfg_template_uri (self_config self)) None)
               (self_PROVENANCE_TEMPLATE self') (self_PUBINFO_TEMPLATES self')
               (if self_nanopub_types self' \<noteq> [] then Some (self_nanopub_types self') else None)
               (self_introduces_uri self')
               (if self_wikidata_labels self' \<noteq> [] then Some (self_wikidata_labels self')
                else None)
               (get (cfg_supersedes (self_config self)) None)
               (map_option (self_store self') (get (cfg_is_part_of (self_config self)) None))
             = Inr pubinfo
           \<and> generate assertion_method ts self
             = Inr (get_prefixes_block self' @ [newline, newline]
                    @ generate_head_graph (self_sub_prefix self') @ [newline, newline]
                    @ assertion @ [newline, newline]
                    @ generate_provenance_graph (self_sub_prefix self')
                        (str (get (cfg_creator_orcid (self_config self))
                                (Some ''0000-0000-0000-0000'')))
                    @ [newline, newline]
                    @ pubinfo @ [newline])
           \<and> clean_block (get_prefixes_block self')
           \<and> clean_block (generate_head_graph (self_sub_prefix self'))
           \<and> clean_block (generate_provenance_graph (self_sub_prefix self')
                            (str (get (cfg_creator_orcid (self_config self))
                                    (Some ''0000-0000-0000-0000''))))
           \<and> clean_block pubinfo"
proof -
  let ?orcid = "str (get (cfg_creator_orcid (self_config self)) (Some ''0000-0000-0000-0000''))"
  let ?name = "str (get (cfg_creator_name (self_config self)) (Some ''Unknown''))"
  let ?label = "str (get (cfg_label (self_config self')) (Some ''Nanopublication''))"
  from pubinfo_graph_clean[OF assms(3) assms(2), of ts "self_nanopub_uri self'" ?orcid ?name ?label
      "get (cfg_template_uri (self_config self)) None"
      "self_PROVENANCE_TEMPLATE self'" "self_PUBINFO_TEMPLATES self'"
      "if self_nanopub_types self' \<noteq> [] then Some (self_nanopub_types self') else None"
      "self_introduces_uri self'"
      "if self_wikidata_labels self' \<noteq> [] then Some (self_wikidata_labels self') else None"
      "get (cfg_supersedes (self_config self)) None"]
  obtain pubinfo where p:
    "generate_pubinfo_graph ts (self_nanopub_uri self') (self_sub_prefix self') ?orcid ?name ?label
       (get (cfg_template_uri (self_config self)) None)
       (self_PROVENANCE_TEMPLATE self') (self_PUBINFO_TEMPLATES self')
       (if self_nanopub_types self' \<noteq> [] then Some (self_nanopub_types self') else None)
       (self_introduces_uri self')
       (if self_wikidata_labels self' \<noteq> [] then Some (self_wikidata_labels self') else None)
       (get (cfg_supersedes (self_config self)) None)
       (map_option (self_store self') (get (cfg_is_part_of (self_config self)) None))
     = Inr pubinfo"
    "clean_block pubinfo"
    by blast
  have "generate assertion_method ts self
             = Inr (get_prefixes_block self' @ [newline, newline]
                    @ generate_head_graph (self_sub_prefix self') @ [newline, newline]
                    @ assertion @ [newline, newline]
                    @ generate_provenance_graph (self_sub_prefix self') ?orcid
                    @ [newline, newline]
                    @ pubinfo @ [newline])"
    unfolding generate_def Let_def assms(1) using p(1) by simp
  then show ?thesis
    using p clean_block_prefixes[of self'] clean_block_head[OF assms(2)]
      clean_block_provenance[OF assms(2)]
    by blast
qed

text \<open>
  Claim C3. The claim promises the five-block document for every configuration record.
  For a configuration whose is_part_of dict has a label and no uri, with the trivial
  extension, \<open>generate\<close> raises \<^verbatim>\<open>KeyError('uri')\<close> instead: line 121 of the source indexes
  \<^verbatim>\<open>is_part_of['uri']\<close> after testing only the label, where line 147 tests the same key with
  \<^verbatim>\<open>is_part_of.get('uri')\<close>.
\<close>

theorem generate_raises_without_uri:
  "generate example_extension ''2026-01-01T00:00:00.000Z''
     (init label_only_config ''https://w3id.org/np/RA1'' label_only_store)
   = Inl (KeyError ''uri'')"
  by (simp add: generate_def Let_def example_extension_def init_def label_only_config_def
      example_config_def label_only_store_def example_store_def generate_pubinfo_graph_def
      pubinfo_lines_def pubinfo_labels_def)

lemma metadata_predicates_templates:
  assumes "truthy prov" "truthy pubs"
  shows "\<exists>mid. butlast (metadata_predicates ts orcid label prov pubs types intro supers ipo)
           = mid @ [label_predicate label, provenance_template_predicate (the prov)]"
proof -
  let ?pre = "[''  this: dct:created '' @ [dquote] @ ts @ [dquote] @ ''^^xsd:dateTime'',
      ''    dct:creator orcid:'' @ orcid,
      ''    dct:license <https://creativecommons.org/licenses/by/4.0/>'']
     @ (if truthy types
        then [''    npx:hasNanopubType ''
                @ join '', '' (map (\<lambda>t. ''<'' @ t @ ''>'') (the types))]
        else [])
     @ (if truthy intro
        then [''    npx:introduces <'' @ the intro @ ''>''] else [])
     @ (if truthy supers
        then [''    npx:supersedes <'' @ the supers @ ''>''] else [])
     @ (if truthy ipo \<and> truthy (map_of (the ipo) ''uri'')
        then [''    <http://purl.org/dc/terms/isPartOf> <''
                @ the (map_of (the ipo) ''uri'') @ ''>'']
        else [])
     @ [''    npx:wasCreatedAt <https://nanodash.knowledgepixels.com/>'']"
  have "metadata_predicates ts orcid label prov pubs types intro supers ipo
          = (?pre @ [label_predicate label, provenance_template_predicate (the prov)])
            @ [pubinfo_templates_predicate (the pubs)]"
    using assms by (simp add: metadata_predicates_def)
  then have "butlast (metadata_predicates ts orcid label prov pubs types intro supers ipo)
          = ?pre @ [label_predicate label, provenance_template_predicate (the prov)]"
    by (simp only: butlast_snoc)
  then show ?thesis by blast
qed

text \<open>
  Claim C10, as the code has it. \<open>generate\<close> passes what \<^verbatim>\<open>self.PROVENANCE_TEMPLATE\<close> and
  \<^verbatim>\<open>self.PUBINFO_TEMPLATES\<close> hold after the extension has run. When these are the defaults
  of the class, every document that \<open>generate\<close> returns has, in its pubinfo graph, the
  label line terminated by a semicolon, then the \<^verbatim>\<open>nt:wasCreatedFromProvenanceTemplate\<close>
  line with the fixed provenance template, then the \<^verbatim>\<open>nt:wasCreatedFromPubinfoTemplate\<close>
  predicate with the two fixed pubinfo templates, which ends the block unless the
  configuration has a template_uri; the label line is then never last.
\<close>

theorem generate_default_templates:
  assumes "assertion_method self = Inr (assertion, self')"
    and "self_PROVENANCE_TEMPLATE self' = Some PROVENANCE_TEMPLATE"
    and "self_PUBINFO_TEMPLATES self' = Some PUBINFO_TEMPLATES"
    and "generate assertion_method ts self = Inr doc"
  shows "\<exists>before.
           doc = get_prefixes_block self' @ [newline, newline]
                 @ generate_head_graph (self_sub_prefix self') @ [newline, newline]
                 @ assertion @ [newline, newline]
                 @ generate_provenance_graph (self_sub_prefix self')
                     (str (get (cfg_creator_orcid (self_config self))
                             (Some ''0000-0000-0000-0000'')))
                 @ [newline, newline]
                 @ join [newline]
                     (before
                      @ [label_predicate
                           (str (get (cfg_label (self_config self')) (Some ''Nanopublication'')))
                           @ '' ;'',
                         ''    nt:wasCreatedFromProvenanceTemplate ''
                           @ ''<https://w3id.org/np/RA7lSq6MuK_TIC6JMSHvLtee3lpLoZDOqLJCLXevnrPoU> ;'']
                      @ (if truthy (get (cfg_template_uri (self_config self)) None)
                         then [''    nt:wasCreatedFromPubinfoTemplate ''
                               @ ''<https://w3id.org/np/RA0J4vUn_dekg-U1kK3AOEt02p9mT2WO03uGxLDec1jLw>,''
                               @ [newline]
                               @ ''      <https://w3id.org/np/RAukAcWHRDlkqxk7H2XNSegc1WnHI569INvNr-xdptDGI> ;'',
                               template_predicate
                                 (the (get (cfg_template_uri (self_config self)) None))
                               @ '' .'']
                         else [''    nt:wasCreatedFromPubinfoTemplate ''
                               @ ''<https://w3id.org/np/RA0J4vUn_dekg-U1kK3AOEt02p9mT2WO03uGxLDec1jLw>,''
                               @ [newline]
                               @ ''      <https://w3id.org/np/RAukAcWHRDlkqxk7H2XNSegc1WnHI569INvNr-xdptDGI> .''])
                      @ [''}''])
                 @ [newline]"
proof -
  let ?orcid = "str (get (cfg_creator_orcid (self_config self)) (Some ''0000-0000-0000-0000''))"
  let ?name = "str (get (cfg_creator_name (self_config self)) (Some ''Unknown''))"
  let ?t = "get (cfg_template_uri (self_config self)) None"
  let ?label = "str (get (cfg_label (self_config self')) (Some ''Nanopublication''))"
  let ?types = "if self_nanopub_types self' \<noteq> [] then Some (self_nanopub_types self') else None"
  let ?wd = "if self_wikidata_labels self' \<noteq> [] then Some (self_wikidata_labels self') else None"
  let ?supers = "get (cfg_supersedes (self_config self)) None"
  let ?ipo = "map_option (self_store self') (get (cfg_is_part_of (self_config self)) None)"
  let ?P = "generate_pubinfo_graph ts (self_nanopub_uri self') (self_sub_prefix self') ?orcid ?name
       ?label ?t (Some PROVENANCE_TEMPLATE) (Some PUBINFO_TEMPLATES) ?types
       (self_introduces_uri self') ?wd ?supers ?ipo"
  from assms obtain pubinfo where p: "?P = Inr pubinfo"
    and doc: "doc = get_prefixes_block self' @ [newline, newline]
                    @ generate_head_graph (self_sub_prefix self') @ [newline, newline]
                    @ assertion @ [newline, newline]
                    @ generate_provenance_graph (self_sub_prefix self') ?orcid
                    @ [newline, newline] @ pubinfo @ [newline]"
    by (cases ?P) (auto simp add: generate_def Let_def)
  have tr: "truthy (Some PROVENANCE_TEMPLATE)" "truthy (Some PUBINFO_TEMPLATES)"
    by (simp_all add: PROVENANCE_TEMPLATE_def PUBINFO_TEMPLATES_def)
  from metadata_predicates_templates[OF tr, of ts ?orcid ?label ?types "self_introduces_uri self'"
      ?supers ?ipo]
  obtain mid where mid:
    "butlast (metadata_predicates ts ?orcid ?label (Some PROVENANCE_TEMPLATE)
               (Some PUBINFO_TEMPLATES) ?types (self_introduces_uri self') ?supers ?ipo)
       = mid @ [label_predicate ?label, provenance_template_predicate PROVENANCE_TEMPLATE]"
    by auto
  from p obtain front where
    ls: "pubinfo = join [newline]
           (front @ map (\<lambda>p. p @ '' ;'') (mid @ [label_predicate ?label,
                                                   provenance_template_predicate PROVENANCE_TEMPLATE])
            @ block_end ?t (pubinfo_templates_predicate PUBINFO_TEMPLATES) @ [''}''])"
    unfolding generate_pubinfo_graph_def pubinfo_lines_shape mid
    using tr by (auto simp add: last_predicate_def split: sum.splits)
  have c1: "provenance_template_predicate PROVENANCE_TEMPLATE @ '' ;''
              = ''    nt:wasCreatedFromProvenanceTemplate ''
                @ ''<https://w3id.org/np/RA7lSq6MuK_TIC6JMSHvLtee3lpLoZDOqLJCLXevnrPoU> ;''"
    by (simp add: provenance_template_predicate_def PROVENANCE_TEMPLATE_def)
  have c2: "pubinfo_templates_predicate PUBINFO_TEMPLATES @ r
              = ''    nt:wasCreatedFromPubinfoTemplate ''
                @ ''<https://w3id.org/np/RA0J4vUn_dekg-U1kK3AOEt02p9mT2WO03uGxLDec1jLw>,''
                @ [newline]
                @ ''      <https://w3id.org/np/RAukAcWHRDlkqxk7H2XNSegc1WnHI569INvNr-xdptDGI>'' @ r"
    for r
    by (simp add: pubinfo_templates_predicate_def PUBINFO_TEMPLATES_def)
  have e: "front @ map (\<lambda>p. p @ '' ;'') (mid @ [label_predicate ?label,
                                                   provenance_template_predicate PROVENANCE_TEMPLATE])
            @ block_end ?t (pubinfo_templates_predicate PUBINFO_TEMPLATES) @ [''}'']
        = (front @ map (\<lambda>p. p @ '' ;'') mid)
          @ [label_predicate ?label @ '' ;'',
             ''    nt:wasCreatedFromProvenanceTemplate ''
               @ ''<https://w3id.org/np/RA7lSq6MuK_TIC6JMSHvLtee3lpLoZDOqLJCLXevnrPoU> ;'']
          @ (if truthy ?t
             then [''    nt:wasCreatedFromPubinfoTemplate ''
                   @ ''<https://w3id.org/np/RA0J4vUn_dekg-U1kK3AOEt02p9mT2WO03uGxLDec1jLw>,''
                   @ [newline]
                   @ ''      <https://w3id.org/np/RAukAcWHRDlkqxk7H2XNSegc1WnHI569INvNr-xdptDGI> ;'',
                   template_predicate (the ?t) @ '' .'']
             else [''    nt:wasCreatedFromPubinfoTemplate ''
                   @ ''<https://w3id.org/np/RA0J4vUn_dekg-U1kK3AOEt02p9mT2WO03uGxLDec1jLw>,''
                   @ [newline]
                   @ ''      <https://w3id.org/np/RAukAcWHRDlkqxk7H2XNSegc1WnHI569INvNr-xdptDGI> .''])
          @ [''}'']"
    using c1 c2[of "'' ;''"] c2[of "'' .''"] by (simp add: block_end_def)
  show ?thesis
    using doc unfolding ls e
    by (intro exI[of _ "front @ map (\<lambda>p. p @ '' ;'') mid"]) simp
qed

text \<open>
  Claim C10 as stated, for every assertion extension, fails for an extension that sets
  both template attributes to None: the document has neither template line, and the label
  line is the last predicate and carries the period.
\<close>

theorem generate_default_templates_counterexample:
  "generate template_free_extension ''2026-01-01T00:00:00.000Z''
     (init example_config ''https://w3id.org/np/RA1'' example_store)
   = Inr (get_prefixes_block
            ((init example_config ''https://w3id.org/np/RA1'' example_store)
               \<lparr>self_PROVENANCE_TEMPLATE := None, self_PUBINFO_TEMPLATES := None\<rparr>)
          @ [newline, newline] @ generate_head_graph ''sub'' @ [newline, newline]
          @ example_assertion @ [newline, newline]
          @ generate_provenance_graph ''sub'' ''0000-0001-2345-6789'' @ [newline, newline]
          @ join [newline]
              [''sub:pubinfo {'',
               ''  orcid:0000-0001-2345-6789 foaf:name '' @ [dquote] @ ''A. Researcher''
                 @ [dquote] @ '' .'',
               [],
               ''  this: dct:created '' @ [dquote] @ ''2026-01-01T00:00:00.000Z'' @ [dquote]
                 @ ''^^xsd:dateTime ;'',
               ''    dct:creator orcid:0000-0001-2345-6789 ;'',
               ''    dct:license <https://creativecommons.org/licenses/by/4.0/> ;'',
               ''    npx:wasCreatedAt <https://nanodash.knowledgepixels.com/> ;'',
               ''    rdfs:label '' @ [dquote] @ ''Test'' @ [dquote] @ '' .'',
               ''}'']
          @ [newline])"
proof -
  have p: "generate_pubinfo_graph ''2026-01-01T00:00:00.000Z'' ''https://w3id.org/np/RA1'' ''sub''
             ''0000-0001-2345-6789'' ''A. Researcher'' ''Test'' None None None None None None
             None None
           = Inr (join [newline]
              [''sub:pubinfo {'',
               ''  orcid:0000-0001-2345-6789 foaf:name '' @ [dquote] @ ''A. Researcher''
                 @ [dquote] @ '' .'',
               [],
               ''  this: dct:created '' @ [dquote] @ ''2026-01-01T00:00:00.000Z'' @ [dquote]
                 @ ''^^xsd:dateTime ;'',
               ''    dct:creator orcid:0000-0001-2345-6789 ;'',
               ''    dct:license <https://creativecommons.org/licenses/by/4.0/> ;'',
               ''    npx:wasCreatedAt <https://nanodash.knowledgepixels.com/> ;'',
               ''    rdfs:label '' @ [dquote] @ ''Test'' @ [dquote] @ '' .'',
               ''}''])"
    by (simp add: generate_pubinfo_graph_def pubinfo_lines_def pubinfo_labels_def
        pubinfo_metadata_def terminate_block_def creator_triple_def label_predicate_def
        make_literal_def escape_literal_def rstrip_def endswith_def
        bslash_def dquote_def newline_def creturn_def Let_def)
  show ?thesis
    unfolding generate_def Let_def template_free_extension_def
    by (simp add: init_def example_config_def p del: join.simps)
qed

theorem generate_default_templates_witness:
  "\<exists>doc before.
     generate example_extension ''2026-01-01T00:00:00.000Z''
       (init example_config ''https://w3id.org/np/RA1'' example_store) = Inr doc
     \<and> doc = get_prefixes_block (init example_config ''https://w3id.org/np/RA1'' example_store)
             @ [newline, newline] @ generate_head_graph ''sub'' @ [newline, newline]
             @ example_assertion @ [newline, newline]
             @ generate_provenance_graph ''sub'' ''0000-0001-2345-6789'' @ [newline, newline]
             @ join [newline]
                 (before
                  @ [label_predicate ''Test'' @ '' ;'',
                     ''    nt:wasCreatedFromProvenanceTemplate ''
                       @ ''<https://w3id.org/np/RA7lSq6MuK_TIC6JMSHvLtee3lpLoZDOqLJCLXevnrPoU> ;'',
                     ''    nt:wasCreatedFromPubinfoTemplate ''
                       @ ''<https://w3id.org/np/RA0J4vUn_dekg-U1kK3AOEt02p9mT2WO03uGxLDec1jLw>,''
                       @ [newline]
                       @ ''      <https://w3id.org/np/RAukAcWHRDlkqxk7H2XNSegc1WnHI569INvNr-xdptDGI> .'',
                     ''}''])
             @ [newline]"
proof -
  let ?g = "init example_config ''https://w3id.org/np/RA1'' example_store"
  have 1: "example_extension ?g = Inr (example_assertion, ?g)"
    by (simp add: example_extension_def)
  have 2: "self_PROVENANCE_TEMPLATE ?g = Some PROVENANCE_TEMPLATE"
    "self_PUBINFO_TEMPLATES ?g = Some PUBINFO_TEMPLATES"
    by (simp_all add: init_def)
  have 3: "\<not> startswith (self_sub_prefix ?g) [newline]"
    by (simp add: init_def startswith_def newline_def)
  have 4: "part_of_has_uri
             (map_option (self_store ?g) (get (cfg_is_part_of (self_config ?g)) None))"
    by (simp add: init_def example_config_def part_of_has_uri_def)
  have 5: "self_sub_prefix ?g = ''sub''"
    "str (get (cfg_creator_orcid (self_config ?g)) (Some ''0000-0000-0000-0000''))
       = ''0000-0001-2345-6789''"
    "str (get (cfg_label (self_config ?g)) (Some ''Nanopublication'')) = ''Test''"
    "truthy (get (cfg_template_uri (self_config ?g)) None) = False"
    by (simp_all add: init_def example_config_def)
  from generate_returns [of example_extension ?g example_assertion ?g
      "''2026-01-01T00:00:00.000Z''", OF 1 3 4]
  obtain doc where
    d: "generate example_extension ''2026-01-01T00:00:00.000Z'' ?g = Inr doc"
    by blast
  from generate_default_templates [of example_extension ?g example_assertion ?g
      "''2026-01-01T00:00:00.000Z''" doc, OF 1 2 d]
  obtain before where
    "doc = get_prefixes_block ?g @ [newline, newline]
                 @ generate_head_graph (self_sub_prefix ?g) @ [newline, newline]
                 @ example_assertion @ [newline, newline]
                 @ generate_provenance_graph (self_sub_prefix ?g)
                     (str (get (cfg_creator_orcid (self_config ?g))
                             (Some ''0000-0000-0000-0000'')))
                 @ [newline, newline]
                 @ join [newline]
                     (before
                      @ [label_predicate
                           (str (get (cfg_label (self_config ?g)) (Some ''Nanopublication'')))
                           @ '' ;'',
                         ''    nt:wasCreatedFromProvenanceTemplate ''
                           @ ''<https://w3id.org/np/RA7lSq6MuK_TIC6JMSHvLtee3lpLoZDOqLJCLXevnrPoU> ;'']
                      @ (if truthy (get (cfg_template_uri (self_config ?g)) None)
                         then [''    nt:wasCreatedFromPubinfoTemplate ''
                               @ ''<https://w3id.org/np/RA0J4vUn_dekg-U1kK3AOEt02p9mT2WO03uGxLDec1jLw>,''
                               @ [newline]
                               @ ''      <https://w3id.org/np/RAukAcWHRDlkqxk7H2XNSegc1WnHI569INvNr-xdptDGI> ;'',
                               template_predicate
                                 (the (get (cfg_template_uri (self_config ?g)) None))
                               @ '' .'']
                         else [''    nt:wasCreatedFromPubinfoTemplate ''
                               @ ''<https://w3id.org/np/RA0J4vUn_dekg-U1kK3AOEt02p9mT2WO03uGxLDec1jLw>,''
                               @ [newline]
                               @ ''      <https://w3id.org/np/RAukAcWHRDlkqxk7H2XNSegc1WnHI569INvNr-xdptDGI> .''])
                      @ [''}''])
                 @ [newline]"
    by blast
  then have "doc = get_prefixes_block ?g
             @ [newline, newline] @ generate_head_graph ''sub'' @ [newline, newline]
             @ example_assertion @ [newline, newline]
             @ generate_provenance_graph ''sub'' ''0000-0001-2345-6789'' @ [newline, newline]
             @ join [newline]
                 (before
                  @ [label_predicate ''Test'' @ '' ;'',
                     ''    nt:wasCreatedFromProvenanceTemplate ''
                       @ ''<https://w3id.org/np/RA7lSq6MuK_TIC6JMSHvLtee3lpLoZDOqLJCLXevnrPoU> ;'',
                     ''    nt:wasCreatedFromPubinfoTemplate ''
                       @ ''<https://w3id.org/np/RA0J4vUn_dekg-U1kK3AOEt02p9mT2WO03uGxLDec1jLw>,''
                       @ [newline]
                       @ ''      <https://w3id.org/np/RAukAcWHRDlkqxk7H2XNSegc1WnHI569INvNr-xdptDGI> .'',
                     ''}''])
             @ [newline]"
    by (simp only: 5 if_False append.simps)
  with d show ?thesis by blast
qed

section \<open>The placeholder URI\<close>

text \<open>
  The shape of the placeholder URI, for a digest function that returns 64 lower-case
  hexadecimal characters, as SHA-256 does. That two calls differ depends on the random
  source and on the digest.
\<close>

lemma generate_nanopub_uri_shape:
  assumes "length (sha256_hexdigest uuid4) = 64"
    and "set (sha256_hexdigest uuid4) \<subseteq> set ''0123456789abcdef''"
  shows "\<exists>digits. generate_nanopub_uri sha256_hexdigest uuid4 = ''https://w3id.org/np/RA'' @ digits
           \<and> length digits = 43 \<and> set digits \<subseteq> set ''0123456789abcdef''"
proof -
  have "set (take 43 (sha256_hexdigest uuid4)) \<subseteq> set ''0123456789abcdef''"
    using assms(2) set_take_subset by fastforce
  then show ?thesis
    using assms(1)
    by (intro exI[of _ "take 43 (sha256_hexdigest uuid4)"])
      (simp add: generate_nanopub_uri_def)
qed

end
